theory Spec2Isabelle
  imports Complex_Main
begin

section \<open>Numbers of the simulation\<close>

text \<open>
  The library \<^verbatim>\<open>doble_rendija.py\<close> computes with Python floats and numpy arrays of
  floats. A finite float is modelled by a real number; the values that a numpy division
  by zero produces are kept apart: an element of an array is a finite number, an infinity
  with its sign (\<open>Infty True\<close> is the positive one), or NaN. Positions and physical
  parameters are finite numbers. The sampled fields are computed in exact real
  arithmetic. The derived constants of an experiment are rounded as binary64 rounds
  them, because the number of visible fringes is the integer part of a quotient of two
  of them, and one unit in the last place decides on which side of an integer that
  quotient falls.
\<close>

datatype npfloat = Finite real | Infty bool | NaN

datatype error = ValueError | ZeroDivisionError

datatype warning = LongitudFueraDeRango | SeparacionMenorIgualAncho

text \<open>
  \<open>fl x\<close> is the binary64 number nearest to \<open>x\<close>: a significand of 53 bits, a tie
  going to the even significand. The exponent is not bounded: overflow, underflow and
  subnormal numbers are not modelled.
\<close>

definition redondeo_par :: "real \<Rightarrow> int" where
  "redondeo_par x =
     (let n = \<lfloor>x\<rfloor>;
          r = x - of_int n
      in if r < 1 / 2 then n else if 1 / 2 < r then n + 1 else if even n then n else n + 1)"

definition fl :: "real \<Rightarrow> real" where
  "fl x =
     (if x = 0 then 0
      else
        let e = \<lfloor>log 2 \<bar>x\<bar>\<rfloor>
        in of_int (redondeo_par (x / 2 powr (of_int e - 52))) * 2 powr (of_int e - 52))"

text \<open>
  Product and quotient of two Python floats, each rounded once. The division raises on
  a zero divisor.
\<close>

definition py_mul :: "real \<Rightarrow> real \<Rightarrow> real" where
  "py_mul x y = fl (x * y)"

definition py_truediv :: "real \<Rightarrow> real \<Rightarrow> error + real" where
  "py_truediv x y = (if y = 0 then Inl ZeroDivisionError else Inr (fl (x / y)))"

text \<open>Python's \<^verbatim>\<open>int(x)\<close> on a float truncates towards zero.\<close>

definition py_int :: "real \<Rightarrow> int" where
  "py_int x = (if 0 \<le> x then \<lfloor>x\<rfloor> else \<lceil>x\<rceil>)"

text \<open>
  Elementwise numpy arithmetic never raises: a zero divisor gives NaN (for \<open>0/0\<close>) or an
  infinity, and these propagate through the later operations as IEEE 754 says. A zero is
  taken as positive.
\<close>

fun np_divide :: "npfloat \<Rightarrow> npfloat \<Rightarrow> npfloat" where
  "np_divide (Finite a) (Finite b) =
     (if b \<noteq> 0 then Finite (a / b) else if a = 0 then NaN else Infty (0 < a))"
| "np_divide (Finite a) (Infty t) = Finite 0"
| "np_divide (Infty s) (Finite b) = Infty (s = (0 \<le> b))"
| "np_divide (Infty s) (Infty t) = NaN"
| "np_divide NaN y = NaN"
| "np_divide x NaN = NaN"

fun np_multiply :: "npfloat \<Rightarrow> npfloat \<Rightarrow> npfloat" where
  "np_multiply (Finite a) (Finite b) = Finite (a * b)"
| "np_multiply (Finite a) (Infty t) = (if a = 0 then NaN else Infty ((0 < a) = t))"
| "np_multiply (Infty s) (Finite b) = (if b = 0 then NaN else Infty (s = (0 < b)))"
| "np_multiply (Infty s) (Infty t) = Infty (s = t)"
| "np_multiply NaN y = NaN"
| "np_multiply x NaN = NaN"

text \<open>\<^verbatim>\<open>x ** 2\<close> on an array is the elementwise square.\<close>

definition np_square :: "npfloat \<Rightarrow> npfloat" where
  "np_square x = np_multiply x x"

fun np_sin :: "npfloat \<Rightarrow> npfloat" where
  "np_sin (Finite a) = Finite (sin a)"
| "np_sin (Infty s) = NaN"
| "np_sin NaN = NaN"

fun np_cos :: "npfloat \<Rightarrow> npfloat" where
  "np_cos (Finite a) = Finite (cos a)"
| "np_cos (Infty s) = NaN"
| "np_cos NaN = NaN"

fun np_arctan :: "npfloat \<Rightarrow> npfloat" where
  "np_arctan (Finite a) = Finite (arctan a)"
| "np_arctan (Infty s) = Finite (if s then pi / 2 else - (pi / 2))"
| "np_arctan NaN = NaN"

fun np_abs :: "npfloat \<Rightarrow> npfloat" where
  "np_abs (Finite a) = Finite \<bar>a\<bar>"
| "np_abs (Infty s) = Infty True"
| "np_abs NaN = NaN"

text \<open>The comparison \<^verbatim>\<open>x < y\<close>: false as soon as one side is NaN.\<close>

fun np_less :: "npfloat \<Rightarrow> npfloat \<Rightarrow> bool" where
  "np_less (Finite a) (Finite b) = (a < b)"
| "np_less (Finite a) (Infty t) = t"
| "np_less (Infty s) (Finite b) = (\<not> s)"
| "np_less (Infty s) (Infty t) = (\<not> s \<and> t)"
| "np_less NaN y = False"
| "np_less x NaN = False"

text \<open>
  \<^verbatim>\<open>np.max\<close> raises \<^verbatim>\<open>ValueError\<close> on an empty array and returns NaN as soon as one
  element is NaN.
\<close>

definition np_maximum :: "npfloat \<Rightarrow> npfloat \<Rightarrow> npfloat" where
  "np_maximum x y = (if x = NaN \<or> y = NaN then NaN else if np_less x y then y else x)"

definition np_max :: "npfloat list \<Rightarrow> error + npfloat" where
  "np_max xs = (case xs of [] \<Rightarrow> Inl ValueError | x # r \<Rightarrow> Inr (fold (\<lambda>y m. np_maximum m y) r x))"

text \<open>\<^verbatim>\<open>np.max\<close> and \<^verbatim>\<open>np.min\<close> of an array of finite numbers.\<close>

definition np_max_fin :: "real list \<Rightarrow> error + real" where
  "np_max_fin xs = (case xs of [] \<Rightarrow> Inl ValueError | x # r \<Rightarrow> Inr (fold max r x))"

definition np_min_fin :: "real list \<Rightarrow> error + real" where
  "np_min_fin xs = (case xs of [] \<Rightarrow> Inl ValueError | x # r \<Rightarrow> Inr (fold min r x))"

text \<open>
  \<^verbatim>\<open>np.linspace(start, stop, num)\<close> with the end point included: the samples are
  \<open>i * step + start\<close> with \<open>step = (stop - start) / (num - 1)\<close>, and the last one is
  overwritten with \<open>stop\<close>. With one sample the array is \<open>[start]\<close>.
\<close>

definition np_linspace :: "real \<Rightarrow> real \<Rightarrow> nat \<Rightarrow> real list" where
  "np_linspace start stop num =
     (let divisor = num - 1;
          delta = stop - start
      in if 0 < divisor
         then (let step = delta / real divisor;
                   y = map (\<lambda>i. real i * step + start) [0..<num]
               in y[num - 1 := stop])
         else map (\<lambda>i. real i * delta + start) [0..<num])"

section \<open>Onda\<close>

text \<open>The attribute \<^verbatim>\<open>k\<close> of the class is the field \<open>onda_k\<close>.\<close>

record Onda =
  longitud_onda :: real
  amplitud :: real
  onda_k :: real
  frecuencia :: real

text \<open>
  \<^verbatim>\<open>Onda.__init__\<close>: the constructor returns the object together with the warnings it
  emitted, or the exception it raised.
\<close>

definition Onda_init :: "real \<Rightarrow> real \<Rightarrow> error + (Onda \<times> warning list)" where
  "Onda_init longitud amp =
     (if longitud \<le> 0 then Inl ValueError
      else
        let ws = (if \<not> (100 / 10 ^ 9 \<le> longitud \<and> longitud \<le> 1000 / 10 ^ 9)
                  then [LongitudFueraDeRango] else [])
        in Inr (\<lparr>longitud_onda = longitud, amplitud = amp,
                  onda_k = 2 * pi / longitud, frecuencia = 3 * 10 ^ 8 / longitud\<rparr>, ws))"

definition fase :: "Onda \<Rightarrow> real \<Rightarrow> real" where
  "fase w distancia = onda_k w * distancia"

section \<open>ExperimentoDobleRendija\<close>

record Experimento =
  onda :: Onda
  ancho_rendija :: real
  separacion :: real
  distancia_pantalla :: real
  separacion_angular :: real
  separacion_franjas :: real
  ancho_central_difraccion :: real
  num_franjas_visibles :: int

text \<open>
  \<^verbatim>\<open>_calcular_parametros_teoricos\<close> runs at the end of the constructor, on the four
  attributes already stored, and stores the four derived ones: the result is the whole
  object. Every product and quotient is rounded, in the order in which the source
  evaluates them: \<^verbatim>\<open>(l * L) / d\<close>, \<^verbatim>\<open>((2 * l) * L) / a\<close>, and the quotient of the two
  stored values before \<^verbatim>\<open>int\<close> truncates it.
\<close>

definition calcular_parametros_teoricos ::
  "Onda \<Rightarrow> real \<Rightarrow> real \<Rightarrow> real \<Rightarrow> error + Experimento" where
  "calcular_parametros_teoricos w a d L =
     (case py_truediv (longitud_onda w) d of
        Inl err \<Rightarrow> Inl err
      | Inr sep_angular \<Rightarrow>
     (case py_truediv (py_mul (longitud_onda w) L) d of
        Inl err \<Rightarrow> Inl err
      | Inr sep_franjas \<Rightarrow>
     (case py_truediv (py_mul (py_mul 2 (longitud_onda w)) L) a of
        Inl err \<Rightarrow> Inl err
      | Inr ancho_central \<Rightarrow>
     (case py_truediv ancho_central sep_franjas of
        Inl err \<Rightarrow> Inl err
      | Inr cociente \<Rightarrow>
          Inr \<lparr>onda = w, ancho_rendija = a, separacion = d, distancia_pantalla = L,
               separacion_angular = sep_angular, separacion_franjas = sep_franjas,
               ancho_central_difraccion = ancho_central,
               num_franjas_visibles = py_int cociente\<rparr>))))"

text \<open>
  \<^verbatim>\<open>ExperimentoDobleRendija.__init__\<close>: four checks that raise, one that warns, then
  the wave is built with the default amplitude and the derived constants are computed.
\<close>

definition ExperimentoDobleRendija_init ::
  "real \<Rightarrow> real \<Rightarrow> real \<Rightarrow> real \<Rightarrow> error + (Experimento \<times> warning list)" where
  "ExperimentoDobleRendija_init longitud a d L =
     (if longitud \<le> 0 then Inl ValueError
      else if a \<le> 0 then Inl ValueError
      else if d \<le> 0 then Inl ValueError
      else if L \<le> 0 then Inl ValueError
      else
        let ws1 = (if d \<le> a then [SeparacionMenorIgualAncho] else [])
        in case Onda_init longitud 1 of
             Inl err \<Rightarrow> Inl err
           | Inr (w, ws2) \<Rightarrow>
               (case calcular_parametros_teoricos w a d L of
                  Inl err \<Rightarrow> Inl err
                | Inr e \<Rightarrow> Inr (e, ws1 @ ws2)))"

text \<open>The default arguments of the constructor.\<close>

definition ExperimentoDobleRendija_defecto :: "error + (Experimento \<times> warning list)" where
  "ExperimentoDobleRendija_defecto =
     ExperimentoDobleRendija_init (632 / 10 ^ 9) (50 / 10 ^ 6) (200 / 10 ^ 6) 1"

subsection \<open>Intensity fields\<close>

text \<open>
  The guard against the division by zero, one element of
  \<^verbatim>\<open>np.where(np.abs(beta) < 1e-12, 1e-12, beta)\<close>.
\<close>

definition beta_seguro :: "npfloat \<Rightarrow> npfloat" where
  "beta_seguro b = (if np_less (np_abs b) (Finite (1 / 10 ^ 12)) then Finite (1 / 10 ^ 12) else b)"

definition rendija_simple :: "Experimento \<Rightarrow> real list \<Rightarrow> npfloat list" where
  "rendija_simple e y =
     (let theta = map (\<lambda>yi. np_arctan (np_divide (Finite yi) (Finite (distancia_pantalla e)))) y;
          beta = map (\<lambda>t. np_divide (np_multiply (Finite (pi * ancho_rendija e)) (np_sin t))
                                    (Finite (longitud_onda (onda e)))) theta;
          beta_seg = map beta_seguro beta
      in map (\<lambda>b. np_square (np_divide (np_sin b) b)) beta_seg)"

definition doble_rendija :: "Experimento \<Rightarrow> real list \<Rightarrow> npfloat list" where
  "doble_rendija e y =
     (let theta = map (\<lambda>yi. np_arctan (np_divide (Finite yi) (Finite (distancia_pantalla e)))) y;
          beta = map (\<lambda>t. np_divide (np_multiply (Finite (pi * ancho_rendija e)) (np_sin t))
                                    (Finite (longitud_onda (onda e)))) theta;
          beta_seg = map beta_seguro beta;
          envolvente = map (\<lambda>b. np_square (np_divide (np_sin b) b)) beta_seg;
          delta = map (\<lambda>t. np_divide (np_multiply (Finite (pi * separacion e)) (np_sin t))
                                     (Finite (longitud_onda (onda e)))) theta;
          interferencia = map (\<lambda>dl. np_square (np_cos dl)) delta
      in map2 np_multiply envolvente interferencia)"

text \<open>
  On an experiment whose screen distance and wavelength are not zero, no division of the
  two fields has a zero divisor and every element is finite. These are the elements, as
  real functions of the position: the angle is \<open>arctan (y / L)\<close>, and the guard acts on
  a real \<open>beta\<close>.
\<close>

definition beta_real :: "Experimento \<Rightarrow> real \<Rightarrow> real" where
  "beta_real e y =
     pi * ancho_rendija e * sin (arctan (y / distancia_pantalla e)) / longitud_onda (onda e)"

definition delta_real :: "Experimento \<Rightarrow> real \<Rightarrow> real" where
  "delta_real e y =
     pi * separacion e * sin (arctan (y / distancia_pantalla e)) / longitud_onda (onda e)"

definition seguro :: "real \<Rightarrow> real" where
  "seguro b = (if \<bar>b\<bar> < 1 / 10 ^ 12 then 1 / 10 ^ 12 else b)"

definition envolvente_real :: "Experimento \<Rightarrow> real \<Rightarrow> real" where
  "envolvente_real e y = (sin (seguro (beta_real e y)) / seguro (beta_real e y)) ^ 2"

definition interferencia_real :: "Experimento \<Rightarrow> real \<Rightarrow> real" where
  "interferencia_real e y = (cos (delta_real e y)) ^ 2"

text \<open>The element of the field that \<^verbatim>\<open>simular\<close> selects with its flag.\<close>

definition campo_real :: "Experimento \<Rightarrow> bool \<Rightarrow> real \<Rightarrow> real" where
  "campo_real e doble y =
     (if doble then envolvente_real e y * interferencia_real e y else envolvente_real e y)"

subsection \<open>Sampling\<close>

definition simular ::
  "Experimento \<Rightarrow> real \<Rightarrow> int \<Rightarrow> bool \<Rightarrow> error + (real list \<times> npfloat list)" where
  "simular e ancho puntos doble =
     (if ancho \<le> 0 then Inl ValueError
      else if puntos < 100 then Inl ValueError
      else
        let y = np_linspace (- ancho / 2) (ancho / 2) (nat puntos);
            intensidad = (if doble then doble_rendija e y else rendija_simple e y)
        in case np_max intensidad of
             Inl err \<Rightarrow> Inl err
           | Inr m \<Rightarrow> Inr (y, map (\<lambda>x. np_divide x m) intensidad))"

subsection \<open>Fringe positions\<close>

text \<open>
  The dictionary \<^verbatim>\<open>parametros\<close> is an association list in the order the source
  writes it.
\<close>

record ResultadosAnalisis =
  posiciones_maximos :: "real list"
  posiciones_minimos :: "real list"
  separacion_franjas_res :: real
  ancho_central :: real
  parametros :: "(string \<times> real) list"

text \<open>
  \<^verbatim>\<open>calcular_posiciones_franjas(n_max=10)\<close>: the argument is \<open>None\<close> when the caller
  leaves it out. The body has no \<^verbatim>\<open>raise\<close> and no operation that can fail, so every
  path returns a result.
\<close>

definition calcular_posiciones_franjas ::
  "Experimento \<Rightarrow> int option \<Rightarrow> error + ResultadosAnalisis" where
  "calcular_posiciones_franjas e n_max_arg =
     (let n_max = (case n_max_arg of None \<Rightarrow> 10 | Some n \<Rightarrow> n);
          ordenes = [- n_max .. n_max];
          maximos = map (\<lambda>n. real_of_int n * separacion_franjas e) ordenes;
          ordenes_minimos = map (\<lambda>n. real_of_int n + 1 / 2) [- n_max .. n_max - 1];
          minimos = map (\<lambda>q. q * separacion_franjas e) ordenes_minimos;
          params = [(''longitud_onda_nm'', longitud_onda (onda e) * 10 ^ 9),
                    (''ancho_rendija_um'', ancho_rendija e * 10 ^ 6),
                    (''separacion_um'', separacion e * 10 ^ 6),
                    (''distancia_pantalla_m'', distancia_pantalla e),
                    (''separacion_franjas_mm'', separacion_franjas e * 10 ^ 3),
                    (''ancho_central_mm'', ancho_central_difraccion e * 10 ^ 3),
                    (''num_franjas_visibles'', real_of_int (num_franjas_visibles e))]
      in Inr \<lparr>posiciones_maximos = maximos, posiciones_minimos = minimos,
              separacion_franjas_res = separacion_franjas e,
              ancho_central = ancho_central_difraccion e,
              parametros = params\<rparr>)"

section \<open>Comparison with a measurement\<close>

text \<open>
  Of \<^verbatim>\<open>comparar_experimento_teoria\<close> only the first statement is modelled: the pair
  \<^verbatim>\<open>(y_teoria, intensidad_teoria)\<close> comes from \<^verbatim>\<open>simular\<close>, called with the span
  and the number of the measured positions. The statistics computed afterwards from
  that pair and the measured intensities (mean squared error, correlation coefficient,
  residuals), the plots and the printed report are not part of the model.
\<close>

definition comparar_teoria ::
  "real list \<Rightarrow> Experimento \<Rightarrow> error + (real list \<times> npfloat list)" where
  "comparar_teoria y_experimental e =
     (case np_max_fin y_experimental of
        Inl err \<Rightarrow> Inl err
      | Inr mx \<Rightarrow>
     (case np_min_fin y_experimental of
        Inl err \<Rightarrow> Inl err
      | Inr mn \<Rightarrow> simular e (mx - mn) (int (length y_experimental)) True))"

text \<open>The object that a successful construction leaves.\<close>

definition construido :: "real \<Rightarrow> real \<Rightarrow> real \<Rightarrow> real \<Rightarrow> Experimento" where
  "construido longitud a d L = fst (projr (ExperimentoDobleRendija_init longitud a d L))"

section \<open>Construction\<close>

subsection \<open>Rounding\<close>

text \<open>
  The rounded value of a positive number is found from its significand: when
  \<open>x * 2 ^ n\<close> lies between \<open>2 ^ 52\<close> and \<open>2 ^ 53\<close> and \<open>m\<close> is the integer nearest
  to it (the even one of the two at a tie), \<open>fl x\<close> is \<open>m / 2 ^ n\<close>. Rounding keeps
  the sign of a positive number and moves it by at most one part in \<open>2 ^ 53\<close>.
\<close>

lemma redondeo_par_cerca:
  assumes "\<bar>y - of_int m\<bar> < 1 / 2 \<or> (\<bar>y - of_int m\<bar> = 1 / 2 \<and> even m)"
  shows "redondeo_par y = m"
proof (cases "of_int m \<le> y")
  case True
  with assms have "y < of_int m + 1" by linarith
  with True have f: "\<lfloor>y\<rfloor> = m" by linarith
  show ?thesis using assms True by (auto simp: redondeo_par_def f Let_def)
next
  case False
  with assms have "of_int (m - 1) \<le> y" "y < of_int (m - 1) + 1" by auto
  then have f: "\<lfloor>y\<rfloor> = m - 1" by linarith
  show ?thesis using assms False by (auto simp: redondeo_par_def f Let_def)
qed

lemma redondeo_par_error: "\<bar>of_int (redondeo_par y) - y\<bar> \<le> 1 / 2"
  unfolding redondeo_par_def Let_def by (auto; linarith)

lemma redondeo_par_mono_floor: "\<lfloor>y\<rfloor> \<le> redondeo_par y"
  unfolding redondeo_par_def Let_def by auto

lemma dos_powr_entero: "2 powr (52 - real n) = 2 ^ 52 / 2 ^ n" "2 powr (53 - real n) = 2 ^ 53 / 2 ^ n"
  "2 powr (- real n) = 1 / 2 ^ n"
proof -
  have n: "(2::real) powr real n = 2 ^ n" by (simp add: powr_realpow)
  have a: "(2::real) powr 52 = 2 ^ 52" "(2::real) powr 53 = 2 ^ 53"
    using powr_realpow [of "2::real" 52] powr_realpow [of "2::real" 53] by simp_all
  show "2 powr (52 - real n) = 2 ^ 52 / 2 ^ n" by (simp only: powr_diff n a)
  show "2 powr (53 - real n) = 2 ^ 53 / 2 ^ n" by (simp only: powr_diff n a)
  show "2 powr (- real n) = 1 / 2 ^ n" by (simp only: powr_minus_divide n)
qed

lemma fl_eval:
  assumes p: "0 < x" and lo: "2 ^ 52 \<le> x * 2 ^ n" and hi: "x * 2 ^ n < 2 ^ 53"
    and r: "\<bar>x * 2 ^ n - of_int m\<bar> < 1 / 2 \<or> (\<bar>x * 2 ^ n - of_int m\<bar> = 1 / 2 \<and> even m)"
  shows "fl x = of_int m / 2 ^ n"
proof -
  have l1: "2 powr real_of_int (52 - int n) \<le> x"
  proof -
    have "2 powr real_of_int (52 - int n) = 2 ^ 52 / 2 ^ n" using dos_powr_entero(1) [of n] by simp
    also have "\<dots> \<le> x" using lo by (simp add: field_simps)
    finally show ?thesis .
  qed
  have l2: "x < 2 powr real_of_int (52 - int n + 1)"
  proof -
    have "x < 2 ^ 53 / 2 ^ n" using hi by (simp add: field_simps)
    also have "\<dots> = 2 powr real_of_int (52 - int n + 1)" using dos_powr_entero(2) [of n] by simp
    finally show ?thesis .
  qed
  have e: "\<lfloor>log 2 \<bar>x\<bar>\<rfloor> = 52 - int n"
    using floor_log_eq_powr_iff [of x 2 "52 - int n"] p l1 l2 by simp
  have u: "2 powr (real_of_int (52 - int n) - 52) = 1 / 2 ^ n"
    using dos_powr_entero(3) [of n] by simp
  have "fl x = of_int (redondeo_par (x / (1 / 2 ^ n))) * (1 / 2 ^ n)"
    using p by (simp only: fl_def Let_def e u) simp
  also have "x / (1 / 2 ^ n) = x * 2 ^ n" by simp
  also have "redondeo_par (x * 2 ^ n) = m" by (rule redondeo_par_cerca [OF r])
  finally show ?thesis by simp
qed

lemma fl_unidad:
  assumes "x \<noteq> 0"
  shows "0 < (2::real) powr (of_int \<lfloor>log 2 \<bar>x\<bar>\<rfloor> - 52)"
    "2 powr (of_int \<lfloor>log 2 \<bar>x\<bar>\<rfloor> - 52) * 2 ^ 52 \<le> \<bar>x\<bar>"
    "fl x = of_int (redondeo_par (x / 2 powr (of_int \<lfloor>log 2 \<bar>x\<bar>\<rfloor> - 52)))
            * 2 powr (of_int \<lfloor>log 2 \<bar>x\<bar>\<rfloor> - 52)"
proof -
  define u :: real where "u = 2 powr (of_int \<lfloor>log 2 \<bar>x\<bar>\<rfloor> - 52)"
  show "0 < (2::real) powr (of_int \<lfloor>log 2 \<bar>x\<bar>\<rfloor> - 52)" by simp
  have "2 powr (of_int \<lfloor>log 2 \<bar>x\<bar>\<rfloor>) \<le> \<bar>x\<bar>"
    using floor_log_eq_powr_iff [of "\<bar>x\<bar>" 2 "\<lfloor>log 2 \<bar>x\<bar>\<rfloor>"] assms(1) by simp
  moreover have "u * 2 ^ 52 = 2 powr (of_int \<lfloor>log 2 \<bar>x\<bar>\<rfloor>)"
  proof -
    have "(2::real) ^ 52 = 2 powr 52" using powr_realpow [of "2::real" 52] by simp
    then show ?thesis unfolding u_def by (simp only: powr_add [symmetric]) simp
  qed
  ultimately show "2 powr (of_int \<lfloor>log 2 \<bar>x\<bar>\<rfloor> - 52) * 2 ^ 52 \<le> \<bar>x\<bar>"
    by (simp add: u_def)
  show "fl x = of_int (redondeo_par (x / 2 powr (of_int \<lfloor>log 2 \<bar>x\<bar>\<rfloor> - 52)))
            * 2 powr (of_int \<lfloor>log 2 \<bar>x\<bar>\<rfloor> - 52)"
    using assms(1) by (simp add: fl_def Let_def)
qed

lemma fl_pos:
  assumes "0 < x"
  shows "0 < fl x"
proof -
  define u :: real where "u = 2 powr (of_int \<lfloor>log 2 \<bar>x\<bar>\<rfloor> - 52)"
  have x: "x \<noteq> 0" using assms by simp
  note f = fl_unidad [OF x, folded u_def]
  have "2 ^ 52 \<le> x / u" using f(1,2) assms by (simp add: field_simps)
  then have "1 \<le> x / u" by simp
  then have "1 \<le> \<lfloor>x / u\<rfloor>" by linarith
  then have "1 \<le> redondeo_par (x / u)" using redondeo_par_mono_floor [of "x / u"] by linarith
  then have "0 < real_of_int (redondeo_par (x / u))" by simp
  then show ?thesis unfolding f(3) using f(1) by simp
qed

lemma fl_error: "\<bar>fl x - x\<bar> \<le> \<bar>x\<bar> / 2 ^ 53"
proof (cases "x = 0")
  case True
  then show ?thesis by (simp add: fl_def)
next
  case False
  define u :: real where "u = 2 powr (of_int \<lfloor>log 2 \<bar>x\<bar>\<rfloor> - 52)"
  note f = fl_unidad [OF False, folded u_def]
  have "fl x - x = (of_int (redondeo_par (x / u)) - x / u) * u"
    unfolding f(3) using f(1) by (simp add: field_simps)
  then have "\<bar>fl x - x\<bar> = \<bar>of_int (redondeo_par (x / u)) - x / u\<bar> * u"
    using f(1) by (simp add: abs_mult)
  also have "\<dots> \<le> 1 / 2 * u"
    using redondeo_par_error [of "x / u"] f(1) by (intro mult_right_mono) simp_all
  also have "\<dots> \<le> \<bar>x\<bar> / 2 ^ 53" using f(2) by simp
  finally show ?thesis .
qed

lemma fl_acumulado:
  assumes t: "0 < t" and s: "\<bar>s - t\<bar> \<le> c * t" and c: "0 \<le> c"
  shows "\<bar>fl s - t\<bar> \<le> (c + (1 + c) / 2 ^ 53) * t"
proof -
  have "\<bar>s\<bar> \<le> \<bar>s - t\<bar> + \<bar>t\<bar>" by linarith
  also have "\<dots> \<le> (1 + c) * t" using s t by (simp add: algebra_simps)
  finally have a: "\<bar>s\<bar> \<le> (1 + c) * t" .
  have "\<bar>fl s - t\<bar> \<le> \<bar>fl s - s\<bar> + \<bar>s - t\<bar>" by linarith
  also have "\<dots> \<le> \<bar>s\<bar> / 2 ^ 53 + c * t" using fl_error [of s] s by linarith
  also have "\<dots> \<le> (1 + c) * t / 2 ^ 53 + c * t" using a by (simp add: divide_right_mono)
  also have "\<dots> = (c + (1 + c) / 2 ^ 53) * t" by (simp add: algebra_simps)
  finally show ?thesis .
qed

lemma fl_no_cero: "0 < x \<Longrightarrow> fl x \<noteq> 0"
  using fl_pos [of x] by simp

lemma fl_error_pos: "0 < x \<Longrightarrow> \<bar>fl x - x\<bar> \<le> x / 2 ^ 53"
  using fl_error [of x] by simp

text \<open>The error of the two derived lengths against the exact quotients.\<close>

lemma error_separacion_franjas:
  assumes "0 < l" "0 < d" "0 < L"
  shows "\<bar>fl (fl (l * L) / d) - l * L / d\<bar> \<le> 3 * (l * L / d) / 2 ^ 53"
proof -
  have t: "0 < l * L / d" using assms by simp
  have "\<bar>fl (l * L) / d - l * L / d\<bar> = \<bar>fl (l * L) - l * L\<bar> / d"
    using assms by (simp add: diff_divide_distrib [symmetric])
  also have "\<dots> \<le> (l * L / 2 ^ 53) / d"
    using fl_error_pos [of "l * L"] assms by (intro divide_right_mono) simp_all
  also have "\<dots> = 1 / 2 ^ 53 * (l * L / d)" by simp
  finally have "\<bar>fl (fl (l * L) / d) - l * L / d\<bar> \<le> (1 / 2 ^ 53 + (1 + 1 / 2 ^ 53) / 2 ^ 53) * (l * L / d)"
    by (intro fl_acumulado [OF t]) simp_all
  also have "\<dots> \<le> 3 / 2 ^ 53 * (l * L / d)"
    using t by (intro mult_right_mono) simp_all
  finally show ?thesis by simp
qed

lemma error_ancho_central:
  assumes "0 < l" "0 < a" "0 < L"
  shows "\<bar>fl (fl (fl (2 * l) * L) / a) - 2 * l * L / a\<bar> \<le> 4 * (2 * l * L / a) / 2 ^ 53"
proof -
  have t: "0 < 2 * l * L / a" and t2: "0 < 2 * l * L" using assms by simp_all
  have "\<bar>fl (2 * l) * L - 2 * l * L\<bar> = \<bar>fl (2 * l) - 2 * l\<bar> * L"
    using assms by (simp add: left_diff_distrib [symmetric] abs_mult)
  also have "\<dots> \<le> (2 * l / 2 ^ 53) * L"
    using fl_error_pos [of "2 * l"] assms by (intro mult_right_mono) simp_all
  also have "\<dots> = 1 / 2 ^ 53 * (2 * l * L)" by simp
  finally have "\<bar>fl (fl (2 * l) * L) - 2 * l * L\<bar>
      \<le> (1 / 2 ^ 53 + (1 + 1 / 2 ^ 53) / 2 ^ 53) * (2 * l * L)"
    by (intro fl_acumulado [OF t2]) simp_all
  also have "\<dots> \<le> 5 / 2 ^ 54 * (2 * l * L)"
    using t2 by (intro mult_right_mono) simp_all
  finally have p: "\<bar>fl (fl (2 * l) * L) - 2 * l * L\<bar> \<le> 5 / 2 ^ 54 * (2 * l * L)" .
  have "\<bar>fl (fl (2 * l) * L) / a - 2 * l * L / a\<bar> = \<bar>fl (fl (2 * l) * L) - 2 * l * L\<bar> / a"
    using assms by (simp add: diff_divide_distrib [symmetric])
  also have "\<dots> \<le> (5 / 2 ^ 54 * (2 * l * L)) / a"
    using p assms by (intro divide_right_mono) simp_all
  also have "\<dots> = 5 / 2 ^ 54 * (2 * l * L / a)" by simp
  finally have "\<bar>fl (fl (fl (2 * l) * L) / a) - 2 * l * L / a\<bar>
      \<le> (5 / 2 ^ 54 + (1 + 5 / 2 ^ 54) / 2 ^ 53) * (2 * l * L / a)"
    by (intro fl_acumulado [OF t]) simp_all
  also have "\<dots> \<le> 4 / 2 ^ 53 * (2 * l * L / a)"
    using t by (intro mult_right_mono) simp_all
  finally show ?thesis by simp
qed

subsection \<open>The constructor\<close>

lemma init_Inr:
  assumes "ExperimentoDobleRendija_init l a d L = Inr (e, ws)"
  shows "0 < l \<and> 0 < a \<and> 0 < d \<and> 0 < L \<and>
         e = \<lparr>onda = \<lparr>longitud_onda = l, amplitud = 1, onda_k = 2 * pi / l,
                       frecuencia = 3 * 10 ^ 8 / l\<rparr>,
              ancho_rendija = a, separacion = d, distancia_pantalla = L,
              separacion_angular = fl (l / d), separacion_franjas = fl (fl (l * L) / d),
              ancho_central_difraccion = fl (fl (fl (2 * l) * L) / a),
              num_franjas_visibles =
                py_int (fl (fl (fl (fl (2 * l) * L) / a) / fl (fl (l * L) / d)))\<rparr>"
  using assms
  by (auto simp: ExperimentoDobleRendija_init_def Onda_init_def calcular_parametros_teoricos_def
      py_truediv_def py_mul_def Let_def split: if_splits sum.splits)

lemma init_ok:
  assumes "0 < l" "0 < a" "0 < d" "0 < L"
  shows "\<exists>e ws. ExperimentoDobleRendija_init l a d L = Inr (e, ws)"
  using assms
  by (auto simp: ExperimentoDobleRendija_init_def Onda_init_def calcular_parametros_teoricos_def
      py_truediv_def py_mul_def fl_pos fl_no_cero Let_def split: if_splits sum.splits)

lemma init_campos:
  assumes "ExperimentoDobleRendija_init l a d L = Inr (e, ws)"
  shows "distancia_pantalla e \<noteq> 0" "longitud_onda (onda e) \<noteq> 0"
    "distancia_pantalla e = L" "longitud_onda (onda e) = l" "ancho_rendija e = a" "separacion e = d"
  using init_Inr [OF assms] by auto

lemma init_derivadas:
  assumes "ExperimentoDobleRendija_init l a d L = Inr (e, ws)"
  shows "separacion_angular e = fl (l / d)"
    "separacion_franjas e = fl (fl (l * L) / d)"
    "ancho_central_difraccion e = fl (fl (fl (2 * l) * L) / a)"
    "num_franjas_visibles e = \<lfloor>fl (ancho_central_difraccion e / separacion_franjas e)\<rfloor>"
proof -
  note r = init_Inr [OF assms]
  show "separacion_angular e = fl (l / d)" "separacion_franjas e = fl (fl (l * L) / d)"
    "ancho_central_difraccion e = fl (fl (fl (2 * l) * L) / a)"
    using r by auto
  have "0 < fl (fl (fl (fl (2 * l) * L) / a) / fl (fl (l * L) / d))"
    using r by (intro fl_pos divide_pos_pos mult_pos_pos) simp_all
  then show "num_franjas_visibles e = \<lfloor>fl (ancho_central_difraccion e / separacion_franjas e)\<rfloor>"
    using r by (auto simp: py_int_def)
qed

lemma construido_ok:
  assumes "0 < l" "0 < a" "0 < d" "0 < L"
  shows "ExperimentoDobleRendija_init l a d L
       = Inr (construido l a d L,
              (if d \<le> a then [SeparacionMenorIgualAncho] else [])
              @ (if \<not> (100 / 10 ^ 9 \<le> l \<and> l \<le> 1000 / 10 ^ 9) then [LongitudFueraDeRango] else []))"
  using assms
  by (simp add: construido_def ExperimentoDobleRendija_init_def Onda_init_def
      calcular_parametros_teoricos_def py_truediv_def py_mul_def fl_pos fl_no_cero Let_def)

text \<open>
  Claim C10. For every wavelength greater than zero and every amplitude, also zero or
  negative, the constructor of \<^verbatim>\<open>Onda\<close> succeeds and stores the amplitude as it was
  given: only the wavelength is checked.
\<close>

theorem Onda_init_amplitud:
  "0 < l \<Longrightarrow> \<exists>w ws. Onda_init l amp = Inr (w, ws) \<and> amplitud w = amp \<and> longitud_onda w = l"
  by (simp add: Onda_init_def Let_def)

theorem Onda_init_amplitud_witness:
  "(\<exists>w ws. Onda_init (632 / 10 ^ 9) (- 5) = Inr (w, ws) \<and> amplitud w = - 5
        \<and> longitud_onda w = 632 / 10 ^ 9)
   \<and> (\<exists>w ws. Onda_init (632 / 10 ^ 9) 0 = Inr (w, ws) \<and> amplitud w = 0
        \<and> longitud_onda w = 632 / 10 ^ 9)"
  using Onda_init_amplitud [of "632 / 10 ^ 9" "- 5"] Onda_init_amplitud [of "632 / 10 ^ 9" 0]
  by simp

text \<open>
  Claim C5. The constructor of the experiment raises \<^verbatim>\<open>ValueError\<close> exactly when one
  of wavelength, slit width, slit separation and screen distance is not positive, and
  raises nothing else. With a separation not above the slit width it succeeds and warns.
  With the wavelength \<open>50e-9\<close> and the other arguments at their defaults it succeeds
  with the warning about the visible range; with the wavelength \<open>-1\<close> it fails.
\<close>

theorem init_falla_sii:
  "(ExperimentoDobleRendija_init l a d L = Inl ValueError) = (l \<le> 0 \<or> a \<le> 0 \<or> d \<le> 0 \<or> L \<le> 0)
   \<and> ExperimentoDobleRendija_init l a d L \<noteq> Inl ZeroDivisionError
   \<and> (0 < l \<and> 0 < a \<and> 0 < d \<and> 0 < L \<and> d \<le> a \<longrightarrow>
        (\<exists>e ws. ExperimentoDobleRendija_init l a d L = Inr (e, ws)
           \<and> SeparacionMenorIgualAncho \<in> set ws))
   \<and> (\<exists>e. ExperimentoDobleRendija_init (50 / 10 ^ 9) (50 / 10 ^ 6) (200 / 10 ^ 6) 1
             = Inr (e, [LongitudFueraDeRango]))
   \<and> ExperimentoDobleRendija_init (- 1) (50 / 10 ^ 6) (200 / 10 ^ 6) 1 = Inl ValueError"
  by (auto simp: ExperimentoDobleRendija_init_def Onda_init_def calcular_parametros_teoricos_def
      py_truediv_def py_mul_def fl_pos fl_no_cero Let_def split: if_splits sum.splits)

theorem init_falla_sii_witness:
  "(\<exists>e ws. ExperimentoDobleRendija_init (632 / 10 ^ 9) (200 / 10 ^ 6) (100 / 10 ^ 6) 1 = Inr (e, ws)
      \<and> SeparacionMenorIgualAncho \<in> set ws)
   \<and> ExperimentoDobleRendija_init (632 / 10 ^ 9) 0 (100 / 10 ^ 6) 1 = Inl ValueError"
  using init_falla_sii [of "632 / 10 ^ 9" "200 / 10 ^ 6" "100 / 10 ^ 6" 1]
    init_falla_sii [of "632 / 10 ^ 9" 0 "100 / 10 ^ 6" 1]
  by simp

subsection \<open>The derived constants\<close>

text \<open>
  The floats of three constructions, step by step: the literals, then every product and
  quotient of \<^verbatim>\<open>_calcular_parametros_teoricos\<close>. The first is the experiment
  \<open>(632e-9, 100e-6, 400e-6, 1.5)\<close>, the second the default experiment, the third the
  default experiment with the separation \<open>250e-6\<close>.
\<close>

lemma flotantes_instancia:
  "fl (632 / 10 ^ 9) = 5969071234347232 / 2 ^ 73"
  "fl (100 / 10 ^ 6) = 7378697629483821 / 2 ^ 66"
  "fl (400 / 10 ^ 6) = 7378697629483821 / 2 ^ 64"
  "fl (5969071234347232 / 2 ^ 73 / (7378697629483821 / 2 ^ 64)) = 7286463909115273 / 2 ^ 62"
  "fl (5969071234347232 / 2 ^ 73 * (3 / 2)) = 8953606851520848 / 2 ^ 73"
  "fl (8953606851520848 / 2 ^ 73 / (7378697629483821 / 2 ^ 64)) = 5464847931836455 / 2 ^ 61"
  "fl (2 * (5969071234347232 / 2 ^ 73)) = 5969071234347232 / 2 ^ 72"
  "fl (5969071234347232 / 2 ^ 72 * (3 / 2)) = 8953606851520848 / 2 ^ 72"
  "fl (8953606851520848 / 2 ^ 72 / (7378697629483821 / 2 ^ 66)) = 5464847931836455 / 2 ^ 58"
  "fl (5464847931836455 / 2 ^ 58 / (5464847931836455 / 2 ^ 61)) = 4503599627370496 / 2 ^ 49"
proof -
  show "fl (632 / 10 ^ 9) = 5969071234347232 / 2 ^ 73"
    by (rule fl_eval [of _ _ 5969071234347232, simplified]) simp_all
  show "fl (100 / 10 ^ 6) = 7378697629483821 / 2 ^ 66"
    by (rule fl_eval [of _ _ 7378697629483821, simplified]) simp_all
  show "fl (400 / 10 ^ 6) = 7378697629483821 / 2 ^ 64"
    by (rule fl_eval [of _ _ 7378697629483821, simplified]) simp_all
  show "fl (5969071234347232 / 2 ^ 73 / (7378697629483821 / 2 ^ 64)) = 7286463909115273 / 2 ^ 62"
    by (rule fl_eval [of _ _ 7286463909115273, simplified]) simp_all
  show "fl (5969071234347232 / 2 ^ 73 * (3 / 2)) = 8953606851520848 / 2 ^ 73"
    by (rule fl_eval [of _ _ 8953606851520848, simplified]) simp_all
  show "fl (8953606851520848 / 2 ^ 73 / (7378697629483821 / 2 ^ 64)) = 5464847931836455 / 2 ^ 61"
    by (rule fl_eval [of _ _ 5464847931836455, simplified]) simp_all
  show "fl (2 * (5969071234347232 / 2 ^ 73)) = 5969071234347232 / 2 ^ 72"
    by (rule fl_eval [of _ _ 5969071234347232, simplified]) simp_all
  show "fl (5969071234347232 / 2 ^ 72 * (3 / 2)) = 8953606851520848 / 2 ^ 72"
    by (rule fl_eval [of _ _ 8953606851520848, simplified]) simp_all
  show "fl (8953606851520848 / 2 ^ 72 / (7378697629483821 / 2 ^ 66)) = 5464847931836455 / 2 ^ 58"
    by (rule fl_eval [of _ _ 5464847931836455, simplified]) simp_all
  show "fl (5464847931836455 / 2 ^ 58 / (5464847931836455 / 2 ^ 61)) = 4503599627370496 / 2 ^ 49"
    by (rule fl_eval [of _ _ 4503599627370496, simplified]) simp_all
qed

lemma flotantes_defecto:
  "fl (632 / 10 ^ 9) = 5969071234347232 / 2 ^ 73"
  "fl (50 / 10 ^ 6) = 7378697629483821 / 2 ^ 67"
  "fl (200 / 10 ^ 6) = 7378697629483821 / 2 ^ 65"
  "fl (5969071234347232 / 2 ^ 73 / (7378697629483821 / 2 ^ 65)) = 7286463909115273 / 2 ^ 61"
  "fl (5969071234347232 / 2 ^ 73 * 1) = 5969071234347232 / 2 ^ 73"
  "fl (2 * (5969071234347232 / 2 ^ 73)) = 5969071234347232 / 2 ^ 72"
  "fl (5969071234347232 / 2 ^ 72 * 1) = 5969071234347232 / 2 ^ 72"
  "fl (5969071234347232 / 2 ^ 72 / (7378697629483821 / 2 ^ 67)) = 7286463909115273 / 2 ^ 58"
  "fl (7286463909115273 / 2 ^ 58 / (7286463909115273 / 2 ^ 61)) = 4503599627370496 / 2 ^ 49"
proof -
  show "fl (632 / 10 ^ 9) = 5969071234347232 / 2 ^ 73"
    by (rule fl_eval [of _ _ 5969071234347232, simplified]) simp_all
  show "fl (50 / 10 ^ 6) = 7378697629483821 / 2 ^ 67"
    by (rule fl_eval [of _ _ 7378697629483821, simplified]) simp_all
  show "fl (200 / 10 ^ 6) = 7378697629483821 / 2 ^ 65"
    by (rule fl_eval [of _ _ 7378697629483821, simplified]) simp_all
  show "fl (5969071234347232 / 2 ^ 73 / (7378697629483821 / 2 ^ 65)) = 7286463909115273 / 2 ^ 61"
    by (rule fl_eval [of _ _ 7286463909115273, simplified]) simp_all
  show "fl (5969071234347232 / 2 ^ 73 * 1) = 5969071234347232 / 2 ^ 73"
    by (rule fl_eval [of _ _ 5969071234347232, simplified]) simp_all
  show "fl (2 * (5969071234347232 / 2 ^ 73)) = 5969071234347232 / 2 ^ 72"
    by (rule fl_eval [of _ _ 5969071234347232, simplified]) simp_all
  show "fl (5969071234347232 / 2 ^ 72 * 1) = 5969071234347232 / 2 ^ 72"
    by (rule fl_eval [of _ _ 5969071234347232, simplified]) simp_all
  show "fl (5969071234347232 / 2 ^ 72 / (7378697629483821 / 2 ^ 67)) = 7286463909115273 / 2 ^ 58"
    by (rule fl_eval [of _ _ 7286463909115273, simplified]) simp_all
  show "fl (7286463909115273 / 2 ^ 58 / (7286463909115273 / 2 ^ 61)) = 4503599627370496 / 2 ^ 49"
    by (rule fl_eval [of _ _ 4503599627370496, simplified]) simp_all
qed

lemma flotantes_demostracion:
  "fl (632 / 10 ^ 9) = 5969071234347232 / 2 ^ 73"
  "fl (50 / 10 ^ 6) = 7378697629483821 / 2 ^ 67"
  "fl (250 / 10 ^ 6) = 4611686018427388 / 2 ^ 64"
  "fl (5969071234347232 / 2 ^ 73 / (4611686018427388 / 2 ^ 64)) = 5829171127292219 / 2 ^ 61"
  "fl (5969071234347232 / 2 ^ 73 * 1) = 5969071234347232 / 2 ^ 73"
  "fl (2 * (5969071234347232 / 2 ^ 73)) = 5969071234347232 / 2 ^ 72"
  "fl (5969071234347232 / 2 ^ 72 * 1) = 5969071234347232 / 2 ^ 72"
  "fl (5969071234347232 / 2 ^ 72 / (7378697629483821 / 2 ^ 67)) = 7286463909115273 / 2 ^ 58"
  "fl (7286463909115273 / 2 ^ 58 / (5829171127292219 / 2 ^ 61)) = 5629499534213119 / 2 ^ 49"
proof -
  show "fl (632 / 10 ^ 9) = 5969071234347232 / 2 ^ 73"
    by (rule fl_eval [of _ _ 5969071234347232, simplified]) simp_all
  show "fl (50 / 10 ^ 6) = 7378697629483821 / 2 ^ 67"
    by (rule fl_eval [of _ _ 7378697629483821, simplified]) simp_all
  show "fl (250 / 10 ^ 6) = 4611686018427388 / 2 ^ 64"
    by (rule fl_eval [of _ _ 4611686018427388, simplified]) simp_all
  show "fl (5969071234347232 / 2 ^ 73 / (4611686018427388 / 2 ^ 64)) = 5829171127292219 / 2 ^ 61"
    by (rule fl_eval [of _ _ 5829171127292219, simplified]) simp_all
  show "fl (5969071234347232 / 2 ^ 73 * 1) = 5969071234347232 / 2 ^ 73"
    by (rule fl_eval [of _ _ 5969071234347232, simplified]) simp_all
  show "fl (2 * (5969071234347232 / 2 ^ 73)) = 5969071234347232 / 2 ^ 72"
    by (rule fl_eval [of _ _ 5969071234347232, simplified]) simp_all
  show "fl (5969071234347232 / 2 ^ 72 * 1) = 5969071234347232 / 2 ^ 72"
    by (rule fl_eval [of _ _ 5969071234347232, simplified]) simp_all
  show "fl (5969071234347232 / 2 ^ 72 / (7378697629483821 / 2 ^ 67)) = 7286463909115273 / 2 ^ 58"
    by (rule fl_eval [of _ _ 7286463909115273, simplified]) simp_all
  show "fl (7286463909115273 / 2 ^ 58 / (5829171127292219 / 2 ^ 61)) = 5629499534213119 / 2 ^ 49"
    by (rule fl_eval [of _ _ 5629499534213119, simplified]) simp_all
qed

text \<open>
  Claim C2. After a successful construction with wavelength \<open>l\<close>, slit width \<open>a\<close>,
  separation \<open>d\<close> and screen distance \<open>L\<close>, the angular fringe spacing is the float
  \<open>l / d\<close>, the linear fringe spacing the float \<open>(l * L) / d\<close> and the width of the
  central maximum the float \<open>((2 * l) * L) / a\<close>; they lie within one, three and four
  parts in \<open>2 ^ 53\<close> of the exact \<open>l / d\<close>, \<open>l * L / d\<close> and \<open>2 * l * L / a\<close>. The
  number of visible fringes is the floor of the float quotient of the stored width by
  the stored spacing. For \<open>(632e-9, 100e-6, 400e-6, 1.5)\<close>, the arguments being the
  floats that these literals denote, the spacing is within \<open>1e-18\<close> of \<open>2.37e-3\<close>, the
  width within \<open>1e-17\<close> of \<open>1.896e-2\<close>, and the number of visible fringes is 8.
\<close>

theorem parametros_teoricos:
  assumes "ExperimentoDobleRendija_init l a d L = Inr (e, ws)"
  shows "separacion_angular e = fl (l / d)
       \<and> separacion_franjas e = fl (fl (l * L) / d)
       \<and> ancho_central_difraccion e = fl (fl (fl (2 * l) * L) / a)
       \<and> \<bar>separacion_angular e - l / d\<bar> \<le> (l / d) / 2 ^ 53
       \<and> \<bar>separacion_franjas e - l * L / d\<bar> \<le> 3 * (l * L / d) / 2 ^ 53
       \<and> \<bar>ancho_central_difraccion e - 2 * l * L / a\<bar> \<le> 4 * (2 * l * L / a) / 2 ^ 53
       \<and> num_franjas_visibles e = \<lfloor>fl (ancho_central_difraccion e / separacion_franjas e)\<rfloor>
       \<and> (\<exists>e' ws'. ExperimentoDobleRendija_init (fl (632 / 10 ^ 9)) (fl (100 / 10 ^ 6))
                        (fl (400 / 10 ^ 6)) (3 / 2) = Inr (e', ws')
            \<and> separacion_franjas e' = 5464847931836455 / 2 ^ 61
            \<and> \<bar>separacion_franjas e' - 237 / 10 ^ 5\<bar> < 1 / 10 ^ 18
            \<and> ancho_central_difraccion e' = 5464847931836455 / 2 ^ 58
            \<and> \<bar>ancho_central_difraccion e' - 1896 / 10 ^ 5\<bar> < 1 / 10 ^ 17
            \<and> num_franjas_visibles e' = 8)"
proof -
  from init_Inr [OF assms] have pos: "0 < l" "0 < a" "0 < d" "0 < L" by simp_all
  note v = init_derivadas [OF assms]
  have ea: "\<bar>separacion_angular e - l / d\<bar> \<le> (l / d) / 2 ^ 53"
    unfolding v(1) using pos by (intro fl_error_pos) simp
  have ef: "\<bar>separacion_franjas e - l * L / d\<bar> \<le> 3 * (l * L / d) / 2 ^ 53"
    unfolding v(2) by (rule error_separacion_franjas [OF pos(1,3,4)])
  have ec: "\<bar>ancho_central_difraccion e - 2 * l * L / a\<bar> \<le> 4 * (2 * l * L / a) / 2 ^ 53"
    unfolding v(3) by (rule error_ancho_central [OF pos(1,2,4)])
  have p: "0 < fl (632 / 10 ^ 9)" "0 < fl (100 / 10 ^ 6)" "0 < fl (400 / 10 ^ 6)" "(0::real) < 3 / 2"
    by (simp_all add: fl_pos)
  obtain e' ws' where
    i': "ExperimentoDobleRendija_init (fl (632 / 10 ^ 9)) (fl (100 / 10 ^ 6))
           (fl (400 / 10 ^ 6)) (3 / 2) = Inr (e', ws')"
    using init_ok [OF p] by auto
  note w = init_derivadas [OF i']
  have f: "separacion_franjas e' = 5464847931836455 / 2 ^ 61"
    using w(2) by (simp only: flotantes_instancia)
  have c: "ancho_central_difraccion e' = 5464847931836455 / 2 ^ 58"
    using w(3) by (simp only: flotantes_instancia)
  have "num_franjas_visibles e' = \<lfloor>4503599627370496 / 2 ^ 49 :: real\<rfloor>"
    using w(4) by (simp only: f c flotantes_instancia)
  also have "\<dots> = 8" by simp
  finally have n: "num_franjas_visibles e' = 8" .
  have bf: "\<bar>separacion_franjas e' - 237 / 10 ^ 5\<bar> < 1 / 10 ^ 18" unfolding f by simp
  have bc: "\<bar>ancho_central_difraccion e' - 1896 / 10 ^ 5\<bar> < 1 / 10 ^ 17" unfolding c by simp
  from v ea ef ec i' f c n bf bc show ?thesis by blast
qed

theorem parametros_teoricos_witness:
  "\<exists>e ws. ExperimentoDobleRendija_init (fl (632 / 10 ^ 9)) (fl (50 / 10 ^ 6)) (fl (200 / 10 ^ 6)) 1
            = Inr (e, ws)
     \<and> separacion_angular e = 7286463909115273 / 2 ^ 61
     \<and> separacion_franjas e = 7286463909115273 / 2 ^ 61
     \<and> ancho_central_difraccion e = 7286463909115273 / 2 ^ 58
     \<and> num_franjas_visibles e = 8"
proof -
  have p: "0 < fl (632 / 10 ^ 9)" "0 < fl (50 / 10 ^ 6)" "0 < fl (200 / 10 ^ 6)" "(0::real) < 1"
    by (simp_all add: fl_pos)
  obtain e ws where
    i: "ExperimentoDobleRendija_init (fl (632 / 10 ^ 9)) (fl (50 / 10 ^ 6)) (fl (200 / 10 ^ 6)) 1
          = Inr (e, ws)"
    using init_ok [OF p] by auto
  from parametros_teoricos [OF i] have
    a: "separacion_angular e = fl (fl (632 / 10 ^ 9) / fl (200 / 10 ^ 6))"
    and f: "separacion_franjas e = fl (fl (fl (632 / 10 ^ 9) * 1) / fl (200 / 10 ^ 6))"
    and c: "ancho_central_difraccion e = fl (fl (fl (2 * fl (632 / 10 ^ 9)) * 1) / fl (50 / 10 ^ 6))"
    and n: "num_franjas_visibles e = \<lfloor>fl (ancho_central_difraccion e / separacion_franjas e)\<rfloor>"
    by blast+
  have a': "separacion_angular e = 7286463909115273 / 2 ^ 61"
    using a by (simp only: flotantes_defecto)
  have f': "separacion_franjas e = 7286463909115273 / 2 ^ 61"
    using f by (simp only: flotantes_defecto)
  have c': "ancho_central_difraccion e = 7286463909115273 / 2 ^ 58"
    using c by (simp only: flotantes_defecto)
  have "num_franjas_visibles e = \<lfloor>4503599627370496 / 2 ^ 49 :: real\<rfloor>"
    using n by (simp only: f' c' flotantes_defecto)
  also have "\<dots> = 8" by simp
  finally have "num_franjas_visibles e = 8" .
  with i a' f' c' show ?thesis by blast
qed

text \<open>
  The rounding decides the count. The demonstration of the module builds the default
  experiment with the separation \<open>250e-6\<close>: the float quotient of the stored width
  by the stored spacing is \<open>5629499534213119 / 2 ^ 49\<close>, one unit in the last place
  below 10, and the number of visible fringes is 9.
\<close>

lemma franjas_visibles_demostracion:
  "\<exists>e ws. ExperimentoDobleRendija_init (fl (632 / 10 ^ 9)) (fl (50 / 10 ^ 6)) (fl (250 / 10 ^ 6)) 1
            = Inr (e, ws)
     \<and> num_franjas_visibles e = 9"
proof -
  have p: "0 < fl (632 / 10 ^ 9)" "0 < fl (50 / 10 ^ 6)" "0 < fl (250 / 10 ^ 6)" "(0::real) < 1"
    by (simp_all add: fl_pos)
  obtain e ws where
    i: "ExperimentoDobleRendija_init (fl (632 / 10 ^ 9)) (fl (50 / 10 ^ 6)) (fl (250 / 10 ^ 6)) 1
          = Inr (e, ws)"
    using init_ok [OF p] by auto
  note w = init_derivadas [OF i]
  have f: "separacion_franjas e = 5829171127292219 / 2 ^ 61"
    using w(2) by (simp only: flotantes_demostracion)
  have c: "ancho_central_difraccion e = 7286463909115273 / 2 ^ 58"
    using w(3) by (simp only: flotantes_demostracion)
  have "num_franjas_visibles e = \<lfloor>5629499534213119 / 2 ^ 49 :: real\<rfloor>"
    using w(4) by (simp only: f c flotantes_demostracion)
  also have "\<dots> = 9" by simp
  finally have "num_franjas_visibles e = 9" .
  with i show ?thesis by blast
qed

section \<open>The arrays of the two fields\<close>

lemma beta_seguro_Finite: "beta_seguro (Finite b) = Finite (seguro b)"
  by (simp add: beta_seguro_def seguro_def)

lemma seguro_nonzero: "seguro b \<noteq> 0"
  by (auto simp: seguro_def)

lemma beta_seguro_nonzero: "beta_seguro b \<noteq> Finite 0"
  by (cases b) (auto simp: beta_seguro_def)

lemma rendija_simple_real:
  assumes "distancia_pantalla e \<noteq> 0" "longitud_onda (onda e) \<noteq> 0"
  shows "rendija_simple e ys = map (\<lambda>y. Finite (envolvente_real e y)) ys"
  using assms
  by (simp add: rendija_simple_def Let_def beta_seguro_Finite seguro_nonzero np_square_def
      envolvente_real_def beta_real_def power2_eq_square)

lemma doble_rendija_real:
  assumes "distancia_pantalla e \<noteq> 0" "longitud_onda (onda e) \<noteq> 0"
  shows "doble_rendija e ys = map (\<lambda>y. Finite (envolvente_real e y * interferencia_real e y)) ys"
proof (rule nth_equalityI)
  show "length (doble_rendija e ys)
      = length (map (\<lambda>y. Finite (envolvente_real e y * interferencia_real e y)) ys)"
    by (simp add: doble_rendija_def Let_def)
next
  fix i
  assume "i < length (doble_rendija e ys)"
  then have i: "i < length ys" by (simp add: doble_rendija_def Let_def)
  then show "doble_rendija e ys ! i
      = map (\<lambda>y. Finite (envolvente_real e y * interferencia_real e y)) ys ! i"
    using assms
    by (simp add: doble_rendija_def Let_def beta_seguro_Finite seguro_nonzero np_square_def
        envolvente_real_def beta_real_def interferencia_real_def delta_real_def power2_eq_square)
qed

lemma sinc_bounds:
  fixes x :: real
  assumes nz: "x \<noteq> 0"
  shows "0 \<le> (sin x / x) ^ 2 \<and> (sin x / x) ^ 2 \<le> 1"
proof -
  have "\<bar>sin x / x\<bar> = \<bar>sin x\<bar> / \<bar>x\<bar>" by simp
  also have "\<dots> \<le> 1" using abs_sin_x_le_abs_x [of x] nz by simp
  finally have "\<bar>sin x / x\<bar> \<le> 1" .
  then have "(sin x / x) ^ 2 \<le> 1" by (simp add: abs_square_le_1)
  then show ?thesis by simp
qed

lemma envolvente_bounds: "0 \<le> envolvente_real e y \<and> envolvente_real e y \<le> 1"
  unfolding envolvente_real_def by (rule sinc_bounds) (rule seguro_nonzero)

lemma interferencia_bounds: "0 \<le> interferencia_real e y \<and> interferencia_real e y \<le> 1"
proof -
  have "\<bar>cos (delta_real e y)\<bar> \<le> 1" by (rule abs_cos_le_one)
  then have "(cos (delta_real e y)) ^ 2 \<le> 1" by (simp add: abs_square_le_1)
  then show ?thesis by (simp add: interferencia_real_def)
qed

lemma fold_np_maximum_Finite:
  "fold (\<lambda>y m. np_maximum m y) (map Finite r) (Finite x) = Finite (fold max r x)"
proof (induction r arbitrary: x)
  case Nil
  show ?case by simp
next
  case (Cons a r)
  have "np_maximum (Finite x) (Finite a) = Finite (max x a)"
    by (simp add: np_maximum_def max_def)
  then show ?case using Cons.IH by (simp add: max.commute)
qed

lemma np_max_Finite:
  "xs \<noteq> [] \<Longrightarrow> np_max (map Finite xs) = Inr (Finite (Max (set xs)))"
  by (cases xs) (simp_all add: np_max_def fold_np_maximum_Finite Max.set_eq_fold del: set_simps)

lemma length_np_linspace: "length (np_linspace start stop num) = num"
  by (simp add: np_linspace_def Let_def)

lemma nth_np_linspace:
  assumes "2 \<le> num" "i < num"
  shows "np_linspace start stop num ! i = start + real i * ((stop - start) / real (num - 1))"
proof (cases "i = num - 1")
  case True
  have "real (num - 1) \<noteq> 0" using assms by simp
  then have "start + real (num - 1) * ((stop - start) / real (num - 1)) = stop" by simp
  then show ?thesis using assms True
    by (simp add: np_linspace_def Let_def)
next
  case False
  then show ?thesis using assms
    by (simp add: np_linspace_def Let_def)
qed

section \<open>Fringe positions\<close>

text \<open>
  Claim C6, as amended. \<^verbatim>\<open>calcular_posiciones_franjas\<close> uses \<open>n_max = 10\<close> when the
  argument is left out, and it never fails: there is no check of \<open>n_max\<close>. With
  \<open>n_max = 0\<close> it returns the single maximum at \<open>0\<close> and no minimum, with a negative
  \<open>n_max\<close> no maximum and no minimum.
\<close>

theorem posiciones_sin_validar:
  "calcular_posiciones_franjas e None = calcular_posiciones_franjas e (Some 10)
   \<and> (\<exists>r. calcular_posiciones_franjas e n_arg = Inr r)
   \<and> (\<exists>r. calcular_posiciones_franjas e (Some 0) = Inr r
         \<and> posiciones_maximos r = [0] \<and> posiciones_minimos r = [])
   \<and> (n < 0 \<longrightarrow> (\<exists>r. calcular_posiciones_franjas e (Some n) = Inr r
         \<and> posiciones_maximos r = [] \<and> posiciones_minimos r = []))"
  by (simp add: calcular_posiciones_franjas_def Let_def)

theorem posiciones_sin_validar_witness:
  "\<exists>r. calcular_posiciones_franjas (construido (632 / 10 ^ 9) (50 / 10 ^ 6) (200 / 10 ^ 6) 1) (Some (- 3)) = Inr r
         \<and> posiciones_maximos r = [] \<and> posiciones_minimos r = []"
  using posiciones_sin_validar [of "construido (632 / 10 ^ 9) (50 / 10 ^ 6) (200 / 10 ^ 6) 1" None "- 3"]
  by simp

theorem posiciones_orden_cero_contraejemplo:
  "ExperimentoDobleRendija_init (632 / 10 ^ 9) (50 / 10 ^ 6) (200 / 10 ^ 6) 1
     = Inr (construido (632 / 10 ^ 9) (50 / 10 ^ 6) (200 / 10 ^ 6) 1, [])
   \<and> \<not> isl (calcular_posiciones_franjas (construido (632 / 10 ^ 9) (50 / 10 ^ 6) (200 / 10 ^ 6) 1) (Some 0))
   \<and> posiciones_maximos (projr (calcular_posiciones_franjas
        (construido (632 / 10 ^ 9) (50 / 10 ^ 6) (200 / 10 ^ 6) 1) (Some 0))) = [0]
   \<and> posiciones_minimos (projr (calcular_posiciones_franjas
        (construido (632 / 10 ^ 9) (50 / 10 ^ 6) (200 / 10 ^ 6) 1) (Some 0))) = []
   \<and> \<not> isl (calcular_posiciones_franjas (construido (632 / 10 ^ 9) (50 / 10 ^ 6) (200 / 10 ^ 6) 1) (Some (- 3)))"
proof -
  have "ExperimentoDobleRendija_init (632 / 10 ^ 9) (50 / 10 ^ 6) (200 / 10 ^ 6) 1
     = Inr (construido (632 / 10 ^ 9) (50 / 10 ^ 6) (200 / 10 ^ 6) 1, [])"
    using construido_ok [of "632 / 10 ^ 9" "50 / 10 ^ 6" "200 / 10 ^ 6" 1] by simp
  then show ?thesis
    by (simp add: calcular_posiciones_franjas_def Let_def)
qed

lemma rev_upto_int: "rev [a..b] = map (\<lambda>k. a + b - k) [a..b]"
proof (rule nth_equalityI)
  show "length (rev [a..b]) = length (map (\<lambda>k. a + b - k) [a..b])" by simp
next
  fix i
  assume "i < length (rev [a..b])"
  then have i: "i < nat (b - a + 1)" by simp
  then have 1: "rev [a..b] ! i = [a..b] ! (nat (b - a + 1) - Suc i)"
    by (simp add: rev_nth)
  have 2: "[a..b] ! (nat (b - a + 1) - Suc i) = a + int (nat (b - a + 1) - Suc i)"
    using i by (intro nth_upto) linarith
  have 3: "[a..b] ! i = a + int i"
    using i by (intro nth_upto) linarith
  show "rev [a..b] ! i = map (\<lambda>k. a + b - k) [a..b] ! i"
    using i 1 2 3 by (simp add: nth_map) 
qed

lemma sorted_map_upto:
  fixes f :: "int \<Rightarrow> real"
  assumes "\<And>x y. x < y \<Longrightarrow> f x < f y"
  shows "sorted_wrt (<) (map f [a..b])"
proof -
  have "sorted_wrt (\<lambda>x y. f x < f y) [a..b]"
    by (rule sorted_wrt_mono_rel [OF _ sorted_wrt_upto]) (simp add: assms)
  then show ?thesis by (simp add: sorted_wrt_map)
qed

text \<open>
  Claim C3. On a constructed experiment and for \<open>n_max \<ge> 1\<close>,
  \<^verbatim>\<open>calcular_posiciones_franjas\<close> returns \<open>2 * n_max + 1\<close> maxima at \<open>n\<close> times the
  fringe spacing for \<open>n\<close> from \<open>- n_max\<close> to \<open>n_max\<close>, and \<open>2 * n_max\<close> minima at
  \<open>n + 0.5\<close> times the fringe spacing for \<open>n\<close> from \<open>- n_max\<close> to \<open>n_max - 1\<close>; both
  sequences ascend strictly and are symmetric about zero (reversing the negated sequence
  gives it back).
\<close>

theorem posiciones_franjas:
  assumes i: "ExperimentoDobleRendija_init l a d L = Inr (e, ws)" and n: "1 \<le> n"
  shows "\<exists>r. calcular_posiciones_franjas e (Some n) = Inr r
     \<and> posiciones_maximos r = map (\<lambda>k. real_of_int k * separacion_franjas e) [- n .. n]
     \<and> length (posiciones_maximos r) = nat (2 * n + 1)
     \<and> posiciones_minimos r = map (\<lambda>k. (real_of_int k + 1 / 2) * separacion_franjas e) [- n .. n - 1]
     \<and> length (posiciones_minimos r) = nat (2 * n)
     \<and> sorted_wrt (<) (posiciones_maximos r)
     \<and> sorted_wrt (<) (posiciones_minimos r)
     \<and> rev (map uminus (posiciones_maximos r)) = posiciones_maximos r
     \<and> rev (map uminus (posiciones_minimos r)) = posiciones_minimos r"
proof -
  from init_Inr [OF i] have "separacion_franjas e = fl (fl (l * L) / d)" "0 < l" "0 < L" "0 < d"
    by simp_all
  then have s: "0 < separacion_franjas e" by (simp add: fl_pos)
  define r where "r = projr (calcular_posiciones_franjas e (Some n))"
  have c: "calcular_posiciones_franjas e (Some n) = Inr r"
    by (simp add: r_def calcular_posiciones_franjas_def Let_def)
  have mx: "posiciones_maximos r = map (\<lambda>k. real_of_int k * separacion_franjas e) [- n .. n]"
    by (simp add: r_def calcular_posiciones_franjas_def Let_def)
  have mn: "posiciones_minimos r
      = map (\<lambda>k. (real_of_int k + 1 / 2) * separacion_franjas e) [- n .. n - 1]"
    by (simp add: r_def calcular_posiciones_franjas_def Let_def comp_def)
  have lmx: "length (posiciones_maximos r) = nat (2 * n + 1)"
    unfolding mx by simp
  have lmn: "length (posiciones_minimos r) = nat (2 * n)"
    unfolding mn by simp
  have smx: "sorted_wrt (<) (posiciones_maximos r)"
    unfolding mx using s by (intro sorted_map_upto) simp
  have smn: "sorted_wrt (<) (posiciones_minimos r)"
    unfolding mn using s by (intro sorted_map_upto) simp
  have rmx: "rev (map uminus (posiciones_maximos r)) = posiciones_maximos r"
    unfolding mx by (simp add: rev_map rev_upto_int comp_def)
  have rmn: "rev (map uminus (posiciones_minimos r)) = posiciones_minimos r"
    unfolding mn by (simp add: rev_map rev_upto_int comp_def algebra_simps)
  from c mx mn lmx lmn smx smn rmx rmn show ?thesis by blast
qed

theorem posiciones_franjas_witness:
  "\<exists>r. calcular_posiciones_franjas (construido (632 / 10 ^ 9) (50 / 10 ^ 6) (200 / 10 ^ 6) 1) (Some 5) = Inr r
     \<and> length (posiciones_maximos r) = 11
     \<and> length (posiciones_minimos r) = 10
     \<and> sorted_wrt (<) (posiciones_maximos r)
     \<and> sorted_wrt (<) (posiciones_minimos r)
     \<and> rev (map uminus (posiciones_maximos r)) = posiciones_maximos r
     \<and> rev (map uminus (posiciones_minimos r)) = posiciones_minimos r"
proof -
  have i: "ExperimentoDobleRendija_init (632 / 10 ^ 9) (50 / 10 ^ 6) (200 / 10 ^ 6) 1
     = Inr (construido (632 / 10 ^ 9) (50 / 10 ^ 6) (200 / 10 ^ 6) 1, [])"
    using construido_ok [of "632 / 10 ^ 9" "50 / 10 ^ 6" "200 / 10 ^ 6" 1] by simp
  have n: "(1::int) \<le> 5" by simp
  from posiciones_franjas [OF i n] show ?thesis by auto
qed

section \<open>The division guard and the envelope\<close>

lemma nth_rendija_simple:
  assumes "distancia_pantalla e \<noteq> 0" "longitud_onda (onda e) \<noteq> 0" "k < length ys"
  shows "rendija_simple e ys ! k = Finite (envolvente_real e (ys ! k))"
  using assms by (simp add: rendija_simple_real)

lemma nth_doble_rendija:
  assumes "distancia_pantalla e \<noteq> 0" "longitud_onda (onda e) \<noteq> 0" "k < length ys"
  shows "doble_rendija e ys ! k = Finite (envolvente_real e (ys ! k) * interferencia_real e (ys ! k))"
  using assms by (simp add: doble_rendija_real)

lemma division_guardada:
  "(let b = beta_seguro (Finite x) in np_square (np_divide (np_sin b) b))
     = Finite ((sin (seguro x) / seguro x) ^ 2)"
  by (simp add: beta_seguro_Finite seguro_nonzero np_square_def Let_def power2_eq_square)

text \<open>
  Claim C4. The guard replaces \<open>beta\<close> by \<open>1e-12\<close> wherever \<open>|beta| < 1e-12\<close> and leaves
  it alone elsewhere, so the divisor of \<open>sin beta / beta\<close> is never zero. On a constructed
  experiment and for every sequence of positions, each element of \<^verbatim>\<open>rendija_simple\<close> is
  the guarded quotient squared, and every element of \<^verbatim>\<open>rendija_simple\<close> and of
  \<^verbatim>\<open>doble_rendija\<close> is a finite number: no NaN and no infinity, also at the position
  \<open>0\<close>, where both give \<open>(sin 1e-12 / 1e-12)\<^sup>2\<close>.
\<close>

theorem guarda_division:
  assumes i: "ExperimentoDobleRendija_init l a d L = Inr (e, ws)"
  shows "(\<forall>b. np_less (np_abs b) (Finite (1 / 10 ^ 12)) \<longrightarrow> beta_seguro b = Finite (1 / 10 ^ 12))
   \<and> (\<forall>b. \<not> np_less (np_abs b) (Finite (1 / 10 ^ 12)) \<longrightarrow> beta_seguro b = b)
   \<and> (\<forall>b. beta_seguro b \<noteq> Finite 0)
   \<and> length (rendija_simple e ys) = length ys
   \<and> length (doble_rendija e ys) = length ys
   \<and> (\<forall>k<length ys.
         rendija_simple e ys ! k
           = (let b = beta_seguro (Finite (beta_real e (ys ! k)))
              in np_square (np_divide (np_sin b) b))
       \<and> (\<exists>v. rendija_simple e ys ! k = Finite v)
       \<and> (\<exists>v. doble_rendija e ys ! k = Finite v))
   \<and> rendija_simple e [0] = [Finite ((sin (1 / 10 ^ 12) / (1 / 10 ^ 12)) ^ 2)]
   \<and> doble_rendija e [0] = [Finite ((sin (1 / 10 ^ 12) / (1 / 10 ^ 12)) ^ 2)]"
proof (intro conjI)
  note nz = init_campos(1,2) [OF i]
  show "\<forall>b. np_less (np_abs b) (Finite (1 / 10 ^ 12)) \<longrightarrow> beta_seguro b = Finite (1 / 10 ^ 12)"
    by (simp add: beta_seguro_def)
  show "\<forall>b. \<not> np_less (np_abs b) (Finite (1 / 10 ^ 12)) \<longrightarrow> beta_seguro b = b"
    by (simp add: beta_seguro_def)
  show "\<forall>b. beta_seguro b \<noteq> Finite 0"
    by (simp add: beta_seguro_nonzero)
  show "length (rendija_simple e ys) = length ys"
    by (simp add: rendija_simple_real [OF nz])
  show "length (doble_rendija e ys) = length ys"
    by (simp add: doble_rendija_real [OF nz])
  show "\<forall>k<length ys.
         rendija_simple e ys ! k
           = (let b = beta_seguro (Finite (beta_real e (ys ! k)))
              in np_square (np_divide (np_sin b) b))
       \<and> (\<exists>v. rendija_simple e ys ! k = Finite v)
       \<and> (\<exists>v. doble_rendija e ys ! k = Finite v)"
  proof (intro allI impI)
    fix k assume k: "k < length ys"
    have 1: "rendija_simple e ys ! k = Finite (envolvente_real e (ys ! k))"
      by (rule nth_rendija_simple [OF nz k])
    have 2: "doble_rendija e ys ! k
        = Finite (envolvente_real e (ys ! k) * interferencia_real e (ys ! k))"
      by (rule nth_doble_rendija [OF nz k])
    have 3: "(let b = beta_seguro (Finite (beta_real e (ys ! k)))
              in np_square (np_divide (np_sin b) b)) = Finite (envolvente_real e (ys ! k))"
      unfolding envolvente_real_def by (rule division_guardada)
    show "rendija_simple e ys ! k
           = (let b = beta_seguro (Finite (beta_real e (ys ! k)))
              in np_square (np_divide (np_sin b) b))
       \<and> (\<exists>v. rendija_simple e ys ! k = Finite v)
       \<and> (\<exists>v. doble_rendija e ys ! k = Finite v)"
      unfolding 1 2 3 by simp
  qed
  have b0: "beta_real e 0 = 0" by (simp add: beta_real_def)
  have d0: "delta_real e 0 = 0" by (simp add: delta_real_def)
  have s0: "seguro 0 = 1 / 10 ^ 12" by (simp add: seguro_def)
  have e0: "envolvente_real e 0 = (sin (1 / 10 ^ 12) / (1 / 10 ^ 12)) ^ 2"
    unfolding envolvente_real_def b0 s0 ..
  have i0: "interferencia_real e 0 = 1"
    unfolding interferencia_real_def d0 by simp
  show "rendija_simple e [0] = [Finite ((sin (1 / 10 ^ 12) / (1 / 10 ^ 12)) ^ 2)]"
    unfolding rendija_simple_real [OF nz] by (simp only: list.map e0)
  show "doble_rendija e [0] = [Finite ((sin (1 / 10 ^ 12) / (1 / 10 ^ 12)) ^ 2)]"
    unfolding doble_rendija_real [OF nz] by (simp only: list.map e0 i0 mult_1_right)
qed

theorem guarda_division_witness:
  "beta_seguro (Finite 0) = Finite (1 / 10 ^ 12)
   \<and> beta_seguro (Finite 1) = Finite 1
   \<and> length (rendija_simple (construido (632 / 10 ^ 9) (50 / 10 ^ 6) (200 / 10 ^ 6) 1) [0, 1 / 100]) = 2
   \<and> (\<exists>v. rendija_simple (construido (632 / 10 ^ 9) (50 / 10 ^ 6) (200 / 10 ^ 6) 1) [0, 1 / 100] ! 1 = Finite v)
   \<and> (\<exists>v. doble_rendija (construido (632 / 10 ^ 9) (50 / 10 ^ 6) (200 / 10 ^ 6) 1) [0, 1 / 100] ! 1 = Finite v)
   \<and> rendija_simple (construido (632 / 10 ^ 9) (50 / 10 ^ 6) (200 / 10 ^ 6) 1) [0]
       = [Finite ((sin (1 / 10 ^ 12) / (1 / 10 ^ 12)) ^ 2)]"
proof -
  have i: "ExperimentoDobleRendija_init (632 / 10 ^ 9) (50 / 10 ^ 6) (200 / 10 ^ 6) 1
     = Inr (construido (632 / 10 ^ 9) (50 / 10 ^ 6) (200 / 10 ^ 6) 1, [])"
    using construido_ok [of "632 / 10 ^ 9" "50 / 10 ^ 6" "200 / 10 ^ 6" 1] by simp
  note g = guarda_division [OF i, of "[0, 1 / 100]"]
  have a: "np_less (np_abs (Finite 0)) (Finite (1 / 10 ^ 12))" by simp
  have b: "\<not> np_less (np_abs (Finite 1)) (Finite (1 / 10 ^ 12))" by simp
  have k: "(1::nat) < length [0, 1 / 100 :: real]" by simp
  from g a have 1: "beta_seguro (Finite 0) = Finite (1 / 10 ^ 12)" by blast
  from g b have 2: "beta_seguro (Finite 1) = Finite 1" by blast
  from g have 3: "length (rendija_simple (construido (632 / 10 ^ 9) (50 / 10 ^ 6) (200 / 10 ^ 6) 1) [0, 1 / 100]) = 2"
    by simp
  from g k have 4: "\<exists>v. rendija_simple (construido (632 / 10 ^ 9) (50 / 10 ^ 6) (200 / 10 ^ 6) 1) [0, 1 / 100] ! 1 = Finite v"
    by blast
  from g k have 5: "\<exists>v. doble_rendija (construido (632 / 10 ^ 9) (50 / 10 ^ 6) (200 / 10 ^ 6) 1) [0, 1 / 100] ! 1 = Finite v"
    by blast
  from g have 6: "rendija_simple (construido (632 / 10 ^ 9) (50 / 10 ^ 6) (200 / 10 ^ 6) 1) [0]
       = [Finite ((sin (1 / 10 ^ 12) / (1 / 10 ^ 12)) ^ 2)]" by blast
  from 1 2 3 4 5 6 show ?thesis by blast
qed

text \<open>
  Claim C7. On a constructed experiment and at every position, the value of
  \<^verbatim>\<open>doble_rendija\<close> (not normalised) is the value of \<^verbatim>\<open>rendija_simple\<close> (not
  normalised) at the same position times \<open>cos\<^sup>2 delta\<close>, a factor between 0 and 1, and so
  never exceeds it.
\<close>

theorem doble_bajo_envolvente:
  assumes i: "ExperimentoDobleRendija_init l a d L = Inr (e, ws)"
  shows "\<forall>k<length ys. \<exists>s c.
           rendija_simple e ys ! k = Finite s
         \<and> c = (cos (delta_real e (ys ! k))) ^ 2 \<and> 0 \<le> c \<and> c \<le> 1
         \<and> doble_rendija e ys ! k = Finite (s * c)
         \<and> s * c \<le> s"
proof (intro allI impI)
  fix k
  assume k: "k < length ys"
  note nz = init_campos(1,2) [OF i]
  let ?s = "envolvente_real e (ys ! k)"
  let ?c = "(cos (delta_real e (ys ! k))) ^ 2"
  have s: "rendija_simple e ys ! k = Finite ?s"
    by (rule nth_rendija_simple [OF nz k])
  have dd: "doble_rendija e ys ! k = Finite (?s * ?c)"
    using nth_doble_rendija [OF nz k] by (simp only: interferencia_real_def)
  have cb: "0 \<le> ?c \<and> ?c \<le> 1"
    using interferencia_bounds [of e "ys ! k"] by (simp only: interferencia_real_def)
  have sb: "0 \<le> ?s" using envolvente_bounds [of e "ys ! k"] by simp
  have le: "?s * ?c \<le> ?s" using sb cb by (simp add: mult_left_le)
  show "\<exists>s c.
           rendija_simple e ys ! k = Finite s
         \<and> c = (cos (delta_real e (ys ! k))) ^ 2 \<and> 0 \<le> c \<and> c \<le> 1
         \<and> doble_rendija e ys ! k = Finite (s * c)
         \<and> s * c \<le> s"
    by (intro exI [of _ ?s] exI [of _ ?c] conjI s dd le refl) (simp_all only: cb)
qed

theorem doble_bajo_envolvente_witness:
  "\<exists>s c. rendija_simple (construido (632 / 10 ^ 9) (50 / 10 ^ 6) (200 / 10 ^ 6) 1) [0, 1 / 100] ! 1 = Finite s
       \<and> 0 \<le> c \<and> c \<le> 1
       \<and> doble_rendija (construido (632 / 10 ^ 9) (50 / 10 ^ 6) (200 / 10 ^ 6) 1) [0, 1 / 100] ! 1 = Finite (s * c)
       \<and> s * c \<le> s"
proof -
  have i: "ExperimentoDobleRendija_init (632 / 10 ^ 9) (50 / 10 ^ 6) (200 / 10 ^ 6) 1
     = Inr (construido (632 / 10 ^ 9) (50 / 10 ^ 6) (200 / 10 ^ 6) 1, [])"
    using construido_ok [of "632 / 10 ^ 9" "50 / 10 ^ 6" "200 / 10 ^ 6" 1] by simp
  have k: "(1::nat) < length [0, 1 / 100 :: real]" by simp
  from doble_bajo_envolvente [OF i, of "[0, 1 / 100]"] k show ?thesis by blast
qed

section \<open>Sampling and normalisation\<close>

lemma campo_bounds: "0 \<le> campo_real e doble y \<and> campo_real e doble y \<le> 1"
proof -
  have "0 \<le> envolvente_real e y * interferencia_real e y"
    using envolvente_bounds [of e y] interferencia_bounds [of e y] by simp
  moreover have "envolvente_real e y * interferencia_real e y \<le> 1"
    using envolvente_bounds [of e y] interferencia_bounds [of e y]
    by (simp add: mult_le_one)
  ultimately show ?thesis
    using envolvente_bounds [of e y] by (simp add: campo_real_def)
qed

lemma campo_arrays:
  assumes "distancia_pantalla e \<noteq> 0" "longitud_onda (onda e) \<noteq> 0"
  shows "(if doble then doble_rendija e ys else rendija_simple e ys)
       = map Finite (map (campo_real e doble) ys)"
  using assms by (simp add: rendija_simple_real doble_rendija_real campo_real_def)

lemma normalizado:
  assumes ne: "rs \<noteq> []" and pos: "\<And>r. r \<in> set rs \<Longrightarrow> 0 \<le> r" and m: "Max (set rs) \<noteq> 0"
  shows "map (\<lambda>x. np_divide x (Finite (Max (set rs)))) (map Finite rs)
           = map Finite (map (\<lambda>r. r / Max (set rs)) rs)"
    and "np_max (map Finite (map (\<lambda>r. r / Max (set rs)) rs)) = Inr (Finite 1)"
    and "\<forall>r\<in>set rs. 0 \<le> r / Max (set rs) \<and> r / Max (set rs) \<le> 1"
proof -
  let ?M = "Max (set rs)"
  have Min: "?M \<in> set rs" using ne by (intro Max_in) simp_all
  then have "0 \<le> ?M" by (rule pos)
  with m have Mpos: "0 < ?M" by simp
  show "map (\<lambda>x. np_divide x (Finite ?M)) (map Finite rs) = map Finite (map (\<lambda>r. r / ?M) rs)"
    using m by simp
  have mono: "mono (\<lambda>r. r / ?M)"
    using Mpos by (intro monoI) (simp add: divide_right_mono)
  have "Max (set (map (\<lambda>r. r / ?M) rs)) = Max ((\<lambda>r. r / ?M) ` set rs)" by simp
  also have "\<dots> = ?M / ?M"
    using mono_Max_commute [OF mono, of "set rs"] ne by simp
  also have "\<dots> = 1" using m by simp
  finally have "Max (set (map (\<lambda>r. r / ?M) rs)) = 1" .
  moreover have "map (\<lambda>r. r / ?M) rs \<noteq> []" using ne by simp
  ultimately show "np_max (map Finite (map (\<lambda>r. r / ?M) rs)) = Inr (Finite 1)"
    using np_max_Finite [of "map (\<lambda>r. r / ?M) rs"] by simp
  show "\<forall>r\<in>set rs. 0 \<le> r / ?M \<and> r / ?M \<le> 1"
  proof
    fix r assume r: "r \<in> set rs"
    then have "r \<le> ?M" by simp
    with pos [OF r] Mpos show "0 \<le> r / ?M \<and> r / ?M \<le> 1" by simp
  qed
qed

lemma simular_Inr:
  assumes nz: "distancia_pantalla e \<noteq> 0" "longitud_onda (onda e) \<noteq> 0"
    and a: "0 < ancho" and p: "100 \<le> puntos"
  shows "simular e ancho puntos doble
       = Inr (np_linspace (- ancho / 2) (ancho / 2) (nat puntos),
              map (\<lambda>x. np_divide x (Finite (Max (set (map (campo_real e doble)
                      (np_linspace (- ancho / 2) (ancho / 2) (nat puntos)))))))
                (map Finite (map (campo_real e doble)
                      (np_linspace (- ancho / 2) (ancho / 2) (nat puntos)))))"
proof -
  let ?y = "np_linspace (- ancho / 2) (ancho / 2) (nat puntos)"
  have len: "length ?y = nat puntos" by (rule length_np_linspace)
  then have ne: "map (campo_real e doble) ?y \<noteq> []" using p by auto
  have c: "(if doble then doble_rendija e ?y else rendija_simple e ?y)
       = map Finite (map (campo_real e doble) ?y)"
    by (rule campo_arrays [OF nz])
  have mx: "np_max (map Finite (map (campo_real e doble) ?y))
       = Inr (Finite (Max (set (map (campo_real e doble) ?y))))"
    by (rule np_max_Finite [OF ne])
  have "simular e ancho puntos doble
      = (case np_max (if doble then doble_rendija e ?y else rendija_simple e ?y) of
             Inl err \<Rightarrow> Inl err
           | Inr m \<Rightarrow> Inr (?y, map (\<lambda>x. np_divide x m)
                 (if doble then doble_rendija e ?y else rendija_simple e ?y)))"
  proof -
    have na: "\<not> ancho \<le> 0" using a by simp
    have np: "\<not> puntos < 100" using p by simp
    show ?thesis by (simp only: simular_def Let_def na np if_False)
  qed
  also have "\<dots> = Inr (?y, map (\<lambda>x. np_divide x (Finite (Max (set (map (campo_real e doble) ?y)))))
                (map Finite (map (campo_real e doble) ?y)))"
    unfolding c mx by simp
  finally show ?thesis .
qed

lemma length_campos:
  "length (rendija_simple e ys) = length ys" "length (doble_rendija e ys) = length ys"
  by (simp_all add: rendija_simple_def doble_rendija_def Let_def)

lemma np_max_Inr: "xs \<noteq> [] \<Longrightarrow> \<exists>m. np_max xs = Inr m"
  by (cases xs) (simp_all add: np_max_def)

lemma simular_Inl:
  "(simular e ancho puntos doble = Inl ValueError) = (ancho \<le> 0 \<or> puntos < 100)"
  and simular_sin_division: "simular e ancho puntos doble \<noteq> Inl ZeroDivisionError"
proof -
  let ?y = "np_linspace (- ancho / 2) (ancho / 2) (nat puntos)"
  let ?c = "if doble then doble_rendija e ?y else rendija_simple e ?y"
  have ok: "\<exists>r. simular e ancho puntos doble = Inr r" if a: "0 < ancho" and p: "100 \<le> puntos"
  proof -
    have "length ?c = nat puntos" by (simp add: length_campos length_np_linspace)
    then have "?c \<noteq> []" using p by auto
    then obtain m where m: "np_max ?c = Inr m" using np_max_Inr by blast
    have na: "\<not> ancho \<le> 0" using a by simp
    have np: "\<not> puntos < 100" using p by simp
    show ?thesis by (simp only: simular_def Let_def na np if_False m sum.case) blast
  qed
  show "(simular e ancho puntos doble = Inl ValueError) = (ancho \<le> 0 \<or> puntos < 100)"
  proof (cases "ancho \<le> 0 \<or> puntos < 100")
    case True
    then show ?thesis by (auto simp: simular_def)
  next
    case False
    then have "\<exists>r. simular e ancho puntos doble = Inr r" by (intro ok) simp_all
    with False show ?thesis by auto
  qed
  show "simular e ancho puntos doble \<noteq> Inl ZeroDivisionError"
  proof (cases "ancho \<le> 0 \<or> puntos < 100")
    case True
    then show ?thesis by (auto simp: simular_def)
  next
    case False
    then have "\<exists>r. simular e ancho puntos doble = Inr r" by (intro ok) simp_all
    then show ?thesis by auto
  qed
qed

lemma sin_pequeno_pos: "0 < sin (1 / 10 ^ 12 :: real)"
proof -
  have "(1 / 10 ^ 12 :: real) < 2" by simp
  also have "\<dots> \<le> pi" by (rule pi_ge_two)
  finally have "(1 / 10 ^ 12 :: real) < pi" .
  then show ?thesis by (intro sin_gt_zero) simp_all
qed

lemma campo_cero: "0 < campo_real e doble 0"
proof -
  have b0: "beta_real e 0 = 0" by (simp add: beta_real_def)
  have d0: "delta_real e 0 = 0" by (simp add: delta_real_def)
  have s0: "seguro 0 = 1 / 10 ^ 12" by (simp add: seguro_def)
  have e0: "envolvente_real e 0 = (sin (1 / 10 ^ 12) / (1 / 10 ^ 12)) ^ 2"
    unfolding envolvente_real_def b0 s0 ..
  have i0: "interferencia_real e 0 = 1"
    unfolding interferencia_real_def d0 by simp
  have "0 < sin (1 / 10 ^ 12 :: real) / (1 / 10 ^ 12)"
    using sin_pequeno_pos by simp
  then have "0 < envolvente_real e 0" unfolding e0 by (rule zero_less_power)
  then show ?thesis by (simp add: campo_real_def i0)
qed

lemma centro_linspace:
  assumes p: "100 \<le> puntos" and o: "odd puntos"
  shows "nat puntos div 2 < nat puntos"
    and "np_linspace (- ancho / 2) (ancho / 2) (nat puntos) ! (nat puntos div 2) = 0"
proof -
  from o obtain q where q: "puntos = 2 * q + 1" by (rule oddE)
  define j where "j = nat q"
  have qp: "0 < q" using p q by simp
  have j: "nat puntos = 2 * j + 1" using q qp by (simp add: j_def nat_add_distrib nat_mult_distrib)
  have jp: "0 < j" using qp by (simp add: j_def)
  have h: "nat puntos div 2 = j" using j by simp
  show lt: "nat puntos div 2 < nat puntos" using j by simp
  have two: "2 \<le> nat puntos" using p by simp
  have "np_linspace (- ancho / 2) (ancho / 2) (nat puntos) ! (nat puntos div 2)
      = - ancho / 2 + real j * ((ancho / 2 - - ancho / 2) / real (nat puntos - 1))"
    using nth_np_linspace [OF two lt] h by simp
  also have "\<dots> = 0" using jp by (simp add: j field_simps)
  finally show "np_linspace (- ancho / 2) (ancho / 2) (nat puntos) ! (nat puntos div 2) = 0" .
qed

lemma max_campo:
  assumes p: "100 \<le> puntos"
  shows "0 \<le> Max (set (map (campo_real e doble) (np_linspace (- ancho / 2) (ancho / 2) (nat puntos))))"
    and "odd puntos \<Longrightarrow>
         0 < Max (set (map (campo_real e doble) (np_linspace (- ancho / 2) (ancho / 2) (nat puntos))))"
proof -
  let ?y = "np_linspace (- ancho / 2) (ancho / 2) (nat puntos)"
  let ?rs = "map (campo_real e doble) ?y"
  have len: "length ?y = nat puntos" by (rule length_np_linspace)
  then have ne: "?rs \<noteq> []" using p by auto
  then have "Max (set ?rs) \<in> set ?rs" by (intro Max_in) simp_all
  then obtain y where "Max (set ?rs) = campo_real e doble y" by auto
  then show "0 \<le> Max (set ?rs)" using campo_bounds [of e doble y] by simp
  assume o: "odd puntos"
  note c = centro_linspace [OF p o]
  have "?rs ! (nat puntos div 2) = campo_real e doble 0"
    using c(1) c(2) [of ancho] len by simp
  moreover have "?rs ! (nat puntos div 2) \<in> set ?rs"
    using c(1) len by (intro nth_mem) simp
  ultimately have "campo_real e doble 0 \<in> set ?rs" by simp
  then have "campo_real e doble 0 \<le> Max (set ?rs)" by simp
  with campo_cero [of e doble] show "0 < Max (set ?rs)" by simp
qed

lemma extremos_linspace:
  assumes "2 \<le> num"
  shows "hd (np_linspace start stop num) = start" "last (np_linspace start stop num) = stop"
proof -
  have len: "length (np_linspace start stop num) = num" by (rule length_np_linspace)
  then have ne: "np_linspace start stop num \<noteq> []" using assms by auto
  have "hd (np_linspace start stop num) = np_linspace start stop num ! 0"
    using ne by (simp add: hd_conv_nth)
  also have "\<dots> = start" using nth_np_linspace [OF assms, of 0 start stop] assms by simp
  finally show "hd (np_linspace start stop num) = start" .
  have nz: "real (num - 1) \<noteq> 0" using assms by simp
  have "last (np_linspace start stop num) = np_linspace start stop num ! (num - 1)"
    using ne len by (simp add: last_conv_nth)
  also have "\<dots> = start + real (num - 1) * ((stop - start) / real (num - 1))"
    using nth_np_linspace [OF assms, of "num - 1" start stop] assms by simp
  also have "\<dots> = stop" using nz by simp
  finally show "last (np_linspace start stop num) = stop" .
qed

text \<open>
  What is established about \<^verbatim>\<open>simular\<close>. It raises \<^verbatim>\<open>ValueError\<close> exactly when the
  width is not positive or fewer than 100 points are asked for, and raises nothing
  else. Otherwise, on a constructed experiment, it returns \<open>puntos\<close> positions, the
  \<open>k\<close>-th at \<open>- ancho / 2 + k * ancho / (puntos - 1)\<close>, from \<open>- ancho / 2\<close> to
  \<open>ancho / 2\<close>, and the field chosen by the flag divided by its maximum \<open>m\<close>. The
  maximum of the result is 1 whenever \<open>m\<close> is not zero. That \<open>m\<close> is not zero is shown
  for an odd number of points only: the centre sample is then at position 0, where the
  field is positive. With an even number of points no sample is at the centre, and the
  field has zeros (\<open>beta\<close> a non-zero multiple of \<open>pi\<close>, or \<open>delta\<close> an odd multiple of
  \<open>pi / 2\<close>); that the samples cannot all be zeros of the field is not shown here, so
  the maximum 1 of the returned intensities is left open for an even number of points.
\<close>

lemma simular_resultado:
  assumes i: "ExperimentoDobleRendija_init l a d L = Inr (e, ws)"
  shows "(simular e ancho puntos doble = Inl ValueError) = (ancho \<le> 0 \<or> puntos < 100)
   \<and> simular e ancho puntos doble \<noteq> Inl ZeroDivisionError
   \<and> (0 < ancho \<and> 100 \<le> puntos \<longrightarrow>
       (\<exists>ys is m. simular e ancho puntos doble = Inr (ys, is)
          \<and> length ys = nat puntos
          \<and> (\<forall>k<nat puntos. ys ! k = - ancho / 2 + real k * (ancho / real (nat puntos - 1)))
          \<and> hd ys = - ancho / 2 \<and> last ys = ancho / 2
          \<and> np_max (if doble then doble_rendija e ys else rendija_simple e ys) = Inr (Finite m)
          \<and> is = map (\<lambda>x. np_divide x (Finite m))
                    (if doble then doble_rendija e ys else rendija_simple e ys)
          \<and> length is = nat puntos
          \<and> (m \<noteq> 0 \<longrightarrow> np_max is = Inr (Finite 1))
          \<and> (odd puntos \<longrightarrow> m \<noteq> 0)))"
proof (intro conjI impI)
  note nz = init_campos(1,2) [OF i]
  show "(simular e ancho puntos doble = Inl ValueError) = (ancho \<le> 0 \<or> puntos < 100)"
    by (rule simular_Inl)
  show "simular e ancho puntos doble \<noteq> Inl ZeroDivisionError"
    by (rule simular_sin_division)
  assume ap: "0 < ancho \<and> 100 \<le> puntos"
  then have a: "0 < ancho" and p: "100 \<le> puntos" by simp_all
  let ?y = "np_linspace (- ancho / 2) (ancho / 2) (nat puntos)"
  let ?rs = "map (campo_real e doble) ?y"
  let ?m = "Max (set ?rs)"
  let ?is = "map (\<lambda>x. np_divide x (Finite ?m)) (map Finite ?rs)"
  have two: "2 \<le> nat puntos" using p by simp
  have len: "length ?y = nat puntos" by (rule length_np_linspace)
  have ne: "?rs \<noteq> []" using len p by auto
  have c: "(if doble then doble_rendija e ?y else rendija_simple e ?y) = map Finite ?rs"
    by (rule campo_arrays [OF nz])
  have 1: "simular e ancho puntos doble = Inr (?y, ?is)"
    by (rule simular_Inr [OF nz a p])
  have 2: "\<forall>k<nat puntos. ?y ! k = - ancho / 2 + real k * (ancho / real (nat puntos - 1))"
  proof (intro allI impI)
    fix k assume k: "k < nat puntos"
    have "ancho / 2 - - ancho / 2 = ancho" by simp
    with nth_np_linspace [OF two k, of "- ancho / 2" "ancho / 2"]
    show "?y ! k = - ancho / 2 + real k * (ancho / real (nat puntos - 1))" by simp
  qed
  have 3: "hd ?y = - ancho / 2" "last ?y = ancho / 2"
    by (rule extremos_linspace [OF two])+
  have 4: "np_max (if doble then doble_rendija e ?y else rendija_simple e ?y) = Inr (Finite ?m)"
    unfolding c by (rule np_max_Finite [OF ne])
  have 5: "?is = map (\<lambda>x. np_divide x (Finite ?m))
                    (if doble then doble_rendija e ?y else rendija_simple e ?y)"
    unfolding c ..
  have 6: "length ?is = nat puntos" using len by simp
  have pos: "\<And>r. r \<in> set ?rs \<Longrightarrow> 0 \<le> r"
    using campo_bounds [of e doble] by auto
  have 7: "?m \<noteq> 0 \<longrightarrow> np_max ?is = Inr (Finite 1)"
  proof
    assume m: "?m \<noteq> 0"
    show "np_max ?is = Inr (Finite 1)"
      by (rule trans [OF arg_cong [where f = np_max, OF normalizado(1) [OF ne pos m]]
            normalizado(2) [OF ne pos m]])
  qed
  have 8: "odd puntos \<longrightarrow> ?m \<noteq> 0"
    using max_campo(2) [OF p, where e = e and doble = doble and ancho = ancho] by auto
  show "\<exists>ys is m. simular e ancho puntos doble = Inr (ys, is)
          \<and> length ys = nat puntos
          \<and> (\<forall>k<nat puntos. ys ! k = - ancho / 2 + real k * (ancho / real (nat puntos - 1)))
          \<and> hd ys = - ancho / 2 \<and> last ys = ancho / 2
          \<and> np_max (if doble then doble_rendija e ys else rendija_simple e ys) = Inr (Finite m)
          \<and> is = map (\<lambda>x. np_divide x (Finite m))
                    (if doble then doble_rendija e ys else rendija_simple e ys)
          \<and> length is = nat puntos
          \<and> (m \<noteq> 0 \<longrightarrow> np_max is = Inr (Finite 1))
          \<and> (odd puntos \<longrightarrow> m \<noteq> 0)"
    by (intro exI [of _ ?y] exI [of _ ?is] exI [of _ ?m] conjI 1 len 2 3 4 5 6 7 8)
qed

lemma simular_resultado_ejemplo:
  "(\<exists>ys is. simular (construido (632 / 10 ^ 9) (50 / 10 ^ 6) (200 / 10 ^ 6) 1) (1 / 100) 101 True = Inr (ys, is)
      \<and> length ys = 101 \<and> hd ys = - (1 / 100) / 2 \<and> last ys = (1 / 100) / 2 \<and> ys ! 1 = - (1 / 100) / 2 + 1 / 10000
      \<and> length is = 101 \<and> np_max is = Inr (Finite 1))
   \<and> simular (construido (632 / 10 ^ 9) (50 / 10 ^ 6) (200 / 10 ^ 6) 1) 0 2000 True = Inl ValueError
   \<and> simular (construido (632 / 10 ^ 9) (50 / 10 ^ 6) (200 / 10 ^ 6) 1) (1 / 100) 99 True = Inl ValueError"
proof -
  let ?E = "construido (632 / 10 ^ 9) (50 / 10 ^ 6) (200 / 10 ^ 6) 1"
  have i: "ExperimentoDobleRendija_init (632 / 10 ^ 9) (50 / 10 ^ 6) (200 / 10 ^ 6) 1 = Inr (?E, [])"
    using construido_ok [of "632 / 10 ^ 9" "50 / 10 ^ 6" "200 / 10 ^ 6" 1] by simp
  have h: "(0::real) < 1 / 100 \<and> (100::int) \<le> 101" by simp
  have o: "odd (101::int)" by simp
  from simular_resultado [OF i, of "1 / 100" 101 True] h
  obtain ys "is" m where s: "simular ?E (1 / 100) 101 True = Inr (ys, is)"
    and l: "length ys = nat 101"
    and n: "\<forall>k<nat 101. ys ! k = - (1 / 100) / 2 + real k * ((1 / 100) / real (nat 101 - 1))"
    and hl: "hd ys = - (1 / 100) / 2" "last ys = (1 / 100) / 2"
    and li: "length is = nat 101"
    and m1: "(m::real) \<noteq> 0 \<longrightarrow> np_max is = Inr (Finite 1)"
    and m2: "odd (101::int) \<longrightarrow> m \<noteq> 0"
    by blast
  from m1 m2 o have mx: "np_max is = Inr (Finite 1)" by blast
  from n have "ys ! 1 = - (1 / 100) / 2 + real 1 * ((1 / 100) / real (nat 101 - 1))" by simp
  then have y1: "ys ! 1 = - (1 / 100) / 2 + 1 / 10000" by simp
  have a: "\<exists>ys is. simular ?E (1 / 100) 101 True = Inr (ys, is)
      \<and> length ys = 101 \<and> hd ys = - (1 / 100) / 2 \<and> last ys = (1 / 100) / 2 \<and> ys ! 1 = - (1 / 100) / 2 + 1 / 10000
      \<and> length is = 101 \<and> np_max is = Inr (Finite 1)"
    using s l hl li mx y1 by auto
  have b: "simular ?E 0 2000 True = Inl ValueError"
    using simular_resultado [OF i, of 0 2000 True] by simp
  have c: "simular ?E (1 / 100) 99 True = Inl ValueError"
    using simular_resultado [OF i, of "1 / 100" 99 True] by simp
  from a b c show ?thesis by blast
qed

text \<open>
  Claim C1, as amended. On a constructed experiment \<^verbatim>\<open>rendija_simple\<close> and
  \<^verbatim>\<open>doble_rendija\<close> return a sequence as long as the positions, with values between 0
  and 1; they do not normalise. The division by the maximum is done by \<^verbatim>\<open>simular\<close>:
  when the maximum of the field it sampled is not zero, its intensities lie between 0
  and 1 and their maximum is exactly 1.
\<close>

theorem campos_acotados:
  assumes i: "ExperimentoDobleRendija_init l a d L = Inr (e, ws)"
  shows "length (rendija_simple e ys) = length ys
   \<and> length (doble_rendija e ys) = length ys
   \<and> (\<forall>k<length ys. (\<exists>v. rendija_simple e ys ! k = Finite v \<and> 0 \<le> v \<and> v \<le> 1)
                     \<and> (\<exists>v. doble_rendija e ys ! k = Finite v \<and> 0 \<le> v \<and> v \<le> 1))
   \<and> (\<forall>ps is. simular e ancho puntos doble = Inr (ps, is)
          \<and> np_max (if doble then doble_rendija e ps else rendija_simple e ps) \<noteq> Inr (Finite 0)
        \<longrightarrow> length is = length ps
          \<and> (\<forall>k<length is. \<exists>v. is ! k = Finite v \<and> 0 \<le> v \<and> v \<le> 1)
          \<and> np_max is = Inr (Finite 1))"
proof (intro conjI allI impI)
  note nz = init_campos(1,2) [OF i]
  show "length (rendija_simple e ys) = length ys" by (rule length_campos)
  show "length (doble_rendija e ys) = length ys" by (rule length_campos)
  {
    fix k assume k: "k < length ys"
    have "rendija_simple e ys ! k = Finite (campo_real e False (ys ! k))"
      using nth_rendija_simple [OF nz k] by (simp add: campo_real_def)
    then show "\<exists>v. rendija_simple e ys ! k = Finite v \<and> 0 \<le> v \<and> v \<le> 1"
      using campo_bounds [of e False "ys ! k"] by blast
    have "doble_rendija e ys ! k = Finite (campo_real e True (ys ! k))"
      using nth_doble_rendija [OF nz k] by (simp add: campo_real_def)
    then show "\<exists>v. doble_rendija e ys ! k = Finite v \<and> 0 \<le> v \<and> v \<le> 1"
      using campo_bounds [of e True "ys ! k"] by blast
  }
  fix ps "is"
  assume h: "simular e ancho puntos doble = Inr (ps, is)
          \<and> np_max (if doble then doble_rendija e ps else rendija_simple e ps) \<noteq> Inr (Finite 0)"
  then have s: "simular e ancho puntos doble = Inr (ps, is)"
    and mz: "np_max (if doble then doble_rendija e ps else rendija_simple e ps) \<noteq> Inr (Finite 0)"
    by simp_all
  have "simular e ancho puntos doble \<noteq> Inl ValueError" using s by simp
  then have ap: "0 < ancho" "100 \<le> puntos" using simular_Inl [of e ancho puntos doble] by auto
  let ?y = "np_linspace (- ancho / 2) (ancho / 2) (nat puntos)"
  let ?rs = "map (campo_real e doble) ?y"
  let ?m = "Max (set ?rs)"
  from simular_Inr [OF nz ap, of doble] s
  have ps: "ps = ?y" and isq: "is = map (\<lambda>x. np_divide x (Finite ?m)) (map Finite ?rs)"
    by simp_all
  have len: "length ?y = nat puntos" by (rule length_np_linspace)
  have ne: "?rs \<noteq> []" using len ap by auto
  have "np_max (if doble then doble_rendija e ?y else rendija_simple e ?y) = Inr (Finite ?m)"
    unfolding campo_arrays [OF nz] by (rule np_max_Finite [OF ne])
  with mz have m: "?m \<noteq> 0" unfolding ps by simp
  have pos: "\<And>r. r \<in> set ?rs \<Longrightarrow> 0 \<le> r"
    using campo_bounds [of e doble] by auto
  note nrm = normalizado [OF ne pos m]
  have is': "is = map Finite (map (\<lambda>r. r / ?m) ?rs)"
    unfolding isq by (rule nrm(1))
  show "length is = length ps" unfolding is' ps by simp
  show "np_max is = Inr (Finite 1)" unfolding is' by (rule nrm(2))
  fix k assume k: "k < length is"
  then have k': "k < length ?rs" unfolding is' by simp
  then have mem: "?rs ! k \<in> set ?rs" by (rule nth_mem)
  have "is ! k = Finite (?rs ! k / ?m)" unfolding is' using k' by simp
  then show "\<exists>v. is ! k = Finite v \<and> 0 \<le> v \<and> v \<le> 1"
    using nrm(3) mem by blast
qed

theorem campos_acotados_witness:
  "length (rendija_simple (construido (632 / 10 ^ 9) (50 / 10 ^ 6) (200 / 10 ^ 6) 1) [0, 1 / 100]) = 2
   \<and> (\<exists>v. rendija_simple (construido (632 / 10 ^ 9) (50 / 10 ^ 6) (200 / 10 ^ 6) 1) [0, 1 / 100] ! 1 = Finite v
          \<and> 0 \<le> v \<and> v \<le> 1)
   \<and> (\<exists>v. doble_rendija (construido (632 / 10 ^ 9) (50 / 10 ^ 6) (200 / 10 ^ 6) 1) [0, 1 / 100] ! 1 = Finite v
          \<and> 0 \<le> v \<and> v \<le> 1)
   \<and> (\<exists>ps is. simular (construido (632 / 10 ^ 9) (50 / 10 ^ 6) (200 / 10 ^ 6) 1) (1 / 100) 101 False = Inr (ps, is)
          \<and> length is = length ps
          \<and> (\<exists>v. is ! 0 = Finite v \<and> 0 \<le> v \<and> v \<le> 1)
          \<and> np_max is = Inr (Finite 1))"
proof -
  let ?E = "construido (632 / 10 ^ 9) (50 / 10 ^ 6) (200 / 10 ^ 6) 1"
  have i: "ExperimentoDobleRendija_init (632 / 10 ^ 9) (50 / 10 ^ 6) (200 / 10 ^ 6) 1 = Inr (?E, [])"
    using construido_ok [of "632 / 10 ^ 9" "50 / 10 ^ 6" "200 / 10 ^ 6" 1] by simp
  note nz = init_campos(1,2) [OF i]
  have a: "(0::real) < 1 / 100" and p: "(100::int) \<le> 101" and o: "odd (101::int)" by simp_all
  let ?y = "np_linspace (- (1 / 100) / 2) ((1 / 100) / 2) (nat 101)"
  let ?rs = "map (campo_real ?E False) ?y"
  let ?is = "map (\<lambda>x. np_divide x (Finite (Max (set ?rs)))) (map Finite ?rs)"
  have s: "simular ?E (1 / 100) 101 False = Inr (?y, ?is)"
    by (rule simular_Inr [OF nz a p])
  have ne: "?rs \<noteq> []" using length_np_linspace [of "- (1 / 100) / 2" "(1 / 100) / 2" "nat 101"] by auto
  have "np_max (if False then doble_rendija ?E ?y else rendija_simple ?E ?y)
      = Inr (Finite (Max (set ?rs)))"
    unfolding campo_arrays [OF nz] by (rule np_max_Finite [OF ne])
  moreover have "0 < Max (set ?rs)" by (rule max_campo(2) [OF p o])
  ultimately have mz: "np_max (if False then doble_rendija ?E ?y else rendija_simple ?E ?y)
      \<noteq> Inr (Finite 0)" by simp
  note t = campos_acotados [OF i, of "[0, 1 / 100]" "1 / 100" 101 False]
  have k: "(1::nat) < length [0, 1 / 100 :: real]" by simp
  from t have 1: "length (rendija_simple ?E [0, 1 / 100]) = 2" by simp
  from t k have 2: "\<exists>v. rendija_simple ?E [0, 1 / 100] ! 1 = Finite v \<and> 0 \<le> v \<and> v \<le> 1" by blast
  from t k have 3: "\<exists>v. doble_rendija ?E [0, 1 / 100] ! 1 = Finite v \<and> 0 \<le> v \<and> v \<le> 1" by blast
  from t s mz have 4: "length ?is = length ?y
          \<and> (\<forall>k<length ?is. \<exists>v. ?is ! k = Finite v \<and> 0 \<le> v \<and> v \<le> 1)
          \<and> np_max ?is = Inr (Finite 1)" by blast
  have "0 < length ?is" using ne by simp
  with 4 have 5: "\<exists>v. ?is ! 0 = Finite v \<and> 0 \<le> v \<and> v \<le> 1" by blast
  from s 4 5 have 6: "\<exists>ps is. simular ?E (1 / 100) 101 False = Inr (ps, is)
          \<and> length is = length ps
          \<and> (\<exists>v. is ! 0 = Finite v \<and> 0 \<le> v \<and> v \<le> 1)
          \<and> np_max is = Inr (Finite 1)" by blast
  from 1 2 3 6 show ?thesis by blast
qed

lemma sin_arctan_3_4: "sin (arctan (3 / 4 :: real)) = 3 / 5"
proof -
  have "sqrt (1 + (3 / 4 :: real)\<^sup>2) = 5 / 4"
    by (rule real_sqrt_unique) (simp_all add: power2_eq_square)
  then have "sin (arctan (3 / 4 :: real)) = (3 / 4) / (5 / 4)"
    by (simp only: sin_arctan)
  then show ?thesis by simp
qed

theorem rendija_simple_sin_normalizar_contraejemplo:
  "ExperimentoDobleRendija_init (600 / 10 ^ 9) (15 / 10 ^ 7) (6 / 10 ^ 6) 4
     = Inr (construido (600 / 10 ^ 9) (15 / 10 ^ 7) (6 / 10 ^ 6) 4, [])
   \<and> rendija_simple (construido (600 / 10 ^ 9) (15 / 10 ^ 7) (6 / 10 ^ 6) 4) [3]
       = [Finite (4 / (9 * pi\<^sup>2))]
   \<and> np_max (rendija_simple (construido (600 / 10 ^ 9) (15 / 10 ^ 7) (6 / 10 ^ 6) 4) [3])
       = Inr (Finite (4 / (9 * pi\<^sup>2)))
   \<and> 4 / (9 * pi\<^sup>2) \<le> 1 / 9
   \<and> np_max (rendija_simple (construido (600 / 10 ^ 9) (15 / 10 ^ 7) (6 / 10 ^ 6) 4) [3])
       \<noteq> Inr (Finite 1)"
proof -
  let ?E = "construido (600 / 10 ^ 9) (15 / 10 ^ 7) (6 / 10 ^ 6) 4"
  have i: "ExperimentoDobleRendija_init (600 / 10 ^ 9) (15 / 10 ^ 7) (6 / 10 ^ 6) 4 = Inr (?E, [])"
    using construido_ok [of "600 / 10 ^ 9" "15 / 10 ^ 7" "6 / 10 ^ 6" 4] by simp
  note nz = init_campos(1,2) [OF i]
  have cL: "distancia_pantalla ?E = 4" by (rule init_campos(3) [OF i])
  have cl: "longitud_onda (onda ?E) = 600 / 10 ^ 9" by (rule init_campos(4) [OF i])
  have ca: "ancho_rendija ?E = 15 / 10 ^ 7" by (rule init_campos(5) [OF i])
  have "beta_real ?E 3 = pi * (15 / 10 ^ 7) * sin (arctan (3 / 4)) / (600 / 10 ^ 9)"
    unfolding beta_real_def cL cl ca ..
  also have "\<dots> = 3 / 2 * pi" unfolding sin_arctan_3_4 by simp
  finally have b: "beta_real ?E 3 = 3 / 2 * pi" .
  have "1 / 10 ^ 12 < 3 / 2 * (2::real)" by simp
  also have "\<dots> \<le> 3 / 2 * pi" using pi_ge_two by simp
  finally have "\<not> \<bar>3 / 2 * pi\<bar> < 1 / 10 ^ 12" by simp
  then have sg: "seguro (3 / 2 * pi) = 3 / 2 * pi" by (simp add: seguro_def)
  have "envolvente_real ?E 3 = (sin (3 / 2 * pi) / (3 / 2 * pi))\<^sup>2"
    unfolding envolvente_real_def b sg ..
  also have "\<dots> = (- 1 / (3 / 2 * pi))\<^sup>2"
    by (simp only: sin_3over2_pi)
  also have "\<dots> = 4 / (9 * pi\<^sup>2)"
    by (simp add: power2_eq_square)
  finally have ev: "envolvente_real ?E 3 = 4 / (9 * pi\<^sup>2)" .
  have r: "rendija_simple ?E [3] = [Finite (4 / (9 * pi\<^sup>2))]"
    unfolding rendija_simple_real [OF nz] by (simp only: list.map ev)
  have m: "np_max (rendija_simple ?E [3]) = Inr (Finite (4 / (9 * pi\<^sup>2)))"
    unfolding r by (simp add: np_max_def)
  have "(2::real)\<^sup>2 \<le> pi\<^sup>2" using pi_ge_two by (intro power_mono) simp_all
  then have "(36::real) \<le> 9 * pi\<^sup>2" by simp
  then have le: "4 / (9 * pi\<^sup>2) \<le> (1 / 9 :: real)" by (simp add: field_simps)
  then have "4 / (9 * pi\<^sup>2) \<noteq> (1::real)" by auto
  then have n1: "np_max (rendija_simple ?E [3]) \<noteq> Inr (Finite 1)" unfolding m by simp
  from i r m le n1 show ?thesis by blast
qed

section \<open>Positions of the comparison\<close>

lemma np_max_min_fin:
  assumes "xs \<noteq> []"
  shows "np_max_fin xs = Inr (Max (set xs))" "np_min_fin xs = Inr (Min (set xs))"
  using assms
  by (cases xs; simp add: np_max_fin_def np_min_fin_def Max.set_eq_fold Min.set_eq_fold del: set_simps)+

lemma rampa_extremos:
  "Max (set (map (\<lambda>i. real i / 1000) [0..<100])) = 99 / 1000"
  "Min (set (map (\<lambda>i. real i / 1000) [0..<100])) = 0"
proof -
  show "Max (set (map (\<lambda>i. real i / 1000) [0..<100])) = 99 / 1000"
  proof (rule Max_eqI)
    show "finite (set (map (\<lambda>i. real i / 1000) [0..<100]))" by simp
    show "99 / 1000 \<in> set (map (\<lambda>i. real i / 1000) [0..<100])"
    proof -
      have "real 99 / 1000 \<in> (\<lambda>i. real i / 1000) ` {0..<100}" by (rule imageI) simp
      then show ?thesis by simp
    qed
    fix y :: real
    assume "y \<in> set (map (\<lambda>i. real i / 1000) [0..<100])"
    then obtain i :: nat where "i < 100" "y = real i / 1000" by auto
    then show "y \<le> 99 / 1000" by simp
  qed
  show "Min (set (map (\<lambda>i. real i / 1000) [0..<100])) = 0"
  proof (rule Min_eqI)
    show "finite (set (map (\<lambda>i. real i / 1000) [0..<100]))" by simp
    show "0 \<in> set (map (\<lambda>i. real i / 1000) [0..<100])"
    proof -
      have "real 0 / 1000 \<in> (\<lambda>i. real i / 1000) ` {0..<100}" by (rule imageI) simp
      then show ?thesis by simp
    qed
    fix y :: real
    assume "y \<in> set (map (\<lambda>i. real i / 1000) [0..<100])"
    then obtain i :: nat where "y = real i / 1000" by auto
    then show "0 \<le> y" by simp
  qed
qed

text \<open>
  Claim C9. The claim is that the comparison evaluates the theory at the positions of the
  caller. The code, under its comment \<^verbatim>\<open>Simular teoria con los mismos puntos\<close>, calls
  \<^verbatim>\<open>simular\<close> with the span and the number of the measured positions, and
  \<^verbatim>\<open>simular\<close> builds its own positions, centred at zero. For the 100 measured positions
  \<open>0, 0.001, \<dots>, 0.099\<close> the theory is evaluated on \<open>linspace(-0.0495, 0.0495, 100)\<close>,
  whose first position is \<open>-0.0495\<close> and not \<open>0\<close>; for three measured positions the call
  raises \<^verbatim>\<open>ValueError\<close>.
\<close>

theorem comparar_regenera_posiciones:
  "map_sum id fst (comparar_teoria (map (\<lambda>i. real i / 1000) [0..<100])
        (construido (632 / 10 ^ 9) (50 / 10 ^ 6) (200 / 10 ^ 6) 1))
     = Inr (np_linspace (- (99 / 1000 - 0) / 2) ((99 / 1000 - 0) / 2) 100)
   \<and> hd (np_linspace (- (99 / 1000 - 0) / 2) ((99 / 1000 - 0) / 2) 100) = - (99 / 2000)
   \<and> hd (map (\<lambda>i. real i / 1000) [0..<100]) = 0
   \<and> comparar_teoria [0, 1 / 1000, 2 / 1000]
        (construido (632 / 10 ^ 9) (50 / 10 ^ 6) (200 / 10 ^ 6) 1) = Inl ValueError"
proof -
  let ?E = "construido (632 / 10 ^ 9) (50 / 10 ^ 6) (200 / 10 ^ 6) 1"
  let ?Y = "map (\<lambda>i. real i / 1000) [0..<100]"
  have i: "ExperimentoDobleRendija_init (632 / 10 ^ 9) (50 / 10 ^ 6) (200 / 10 ^ 6) 1 = Inr (?E, [])"
    using construido_ok [of "632 / 10 ^ 9" "50 / 10 ^ 6" "200 / 10 ^ 6" 1] by simp
  note nz = init_campos(1,2) [OF i]
  have ne: "?Y \<noteq> []" by simp
  have mx: "np_max_fin ?Y = Inr (99 / 1000)"
    unfolding np_max_min_fin(1) [OF ne] rampa_extremos(1) ..
  have mn: "np_min_fin ?Y = Inr 0"
    unfolding np_max_min_fin(2) [OF ne] rampa_extremos(2) ..
  have len: "int (length ?Y) = 100" by simp
  have c: "comparar_teoria ?Y ?E = simular ?E (99 / 1000 - 0) 100 True"
    unfolding comparar_teoria_def mx mn len by simp
  have a: "(0::real) < 99 / 1000 - 0" and p: "(100::int) \<le> 100" by simp_all
  have n: "nat 100 = (100::nat)" by simp
  have 1: "map_sum id fst (comparar_teoria ?Y ?E)
     = Inr (np_linspace (- (99 / 1000 - 0) / 2) ((99 / 1000 - 0) / 2) 100)"
    unfolding c simular_Inr [OF nz a p] n by simp
  have 2: "hd (np_linspace (- (99 / 1000 - 0) / 2) ((99 / 1000 - 0) / 2) 100) = - (99 / 2000)"
    using extremos_linspace(1) [of 100 "- (99 / 1000 - 0) / 2" "(99 / 1000 - 0) / 2"] by simp
  have 3: "hd ?Y = 0" by (simp add: upt_rec)
  have 4: "comparar_teoria [0, 1 / 1000, 2 / 1000] ?E = Inl ValueError"
    by (simp add: comparar_teoria_def np_max_fin_def np_min_fin_def simular_def)
  from 1 2 3 4 show ?thesis by blast
qed

end
